theory Spec2Isabelle
  imports Main "HOL-Library.AList"
begin

section \<open>The signaling server of webrtc-karaoke (server-https.js)\<close>

text \<open>
  The class \<open>SignalingServer\<close> keeps two JavaScript \<open>Map\<close>s: \<open>rooms\<close>
  (room identifier to \<open>{host, viewers, createdAt}\<close>) and \<open>connections\<close>
  (socket to \<open>{type, roomId, viewerId}\<close>). A \<open>Map\<close> and a \<open>Set\<close> iterate in
  insertion order, so both are association lists / lists here: \<open>AList.update\<close> replaces
  in place or appends at the end as \<open>Map.set\<close> does, \<open>AList.delete\<close> is
  \<open>Map.delete\<close>, \<open>map_of\<close> is \<open>Map.get\<close> and \<open>length\<close> is \<open>Map.size\<close>.

  A socket is identified by a number. Its \<open>readyState\<close> belongs to the \<open>ws\<close>
  library; the server reads it and changes it only by calling \<open>close\<close>.
  \<open>Date.now()\<close> and \<open>generateViewerId()\<close> (a \<open>Math.random()\<close> token) are
  inputs of the handlers that call them. Every \<open>send\<close> and \<open>close\<close> call is
  recorded, in order, in the list of actions a handler returns, whatever the state of
  the socket; what the library does with a \<open>send\<close> on a socket that is not open is
  outside the model. A JavaScript string is
  a \<open>string\<close>, one \<open>char\<close> per code unit.

  The connection counter, the heartbeat and the HTTP routes take no part in the room
  and binding tables and are left out. The plain server (\<open>server.js\<close>) has the same
  \<open>handleLeaveRoom\<close> and \<open>handleDisconnection\<close>; its other handlers are these
  without the checks of identifier, capacity and \<open>readyState\<close>, and it has no sweep.
\<close>

subsection \<open>Values of JSON.parse\<close>

datatype json =
    JNull
  | JBool bool
  | JNum int
  | JStr string
  | JArr "json list"
  | JObj "(string \<times> json) list"

text \<open>Property access \<open>message.k\<close>; \<open>None\<close> is \<open>undefined\<close>. On \<open>null\<close> the
  access throws, which \<open>handleMessage\<close> below treats before any property is read.\<close>

fun get_field :: "json \<Rightarrow> string \<Rightarrow> json option" where
  "get_field (JObj kvs) k = map_of kvs k"
| "get_field _ k = None"

text \<open>JavaScript truthiness: \<open>!v\<close> is \<open>\<not> truthy v\<close>.\<close>

fun truthy :: "json option \<Rightarrow> bool" where
  "truthy None = False"
| "truthy (Some JNull) = False"
| "truthy (Some (JBool b)) = b"
| "truthy (Some (JNum n)) = (n \<noteq> 0)"
| "truthy (Some (JStr s)) = (s \<noteq> [])"
| "truthy (Some (JArr xs)) = True"
| "truthy (Some (JObj kvs)) = True"

text \<open>\<open>typeof v === 'string'\<close> and the string itself.\<close>

fun is_string :: "json option \<Rightarrow> bool" where
  "is_string (Some (JStr s)) = True"
| "is_string _ = False"

fun the_string :: "json option \<Rightarrow> string" where
  "the_string (Some (JStr s)) = s"
| "the_string _ = []"

text \<open>\<open>viewerConnection.viewerId === viewerId\<close>: the left side is a stored string or
  \<open>undefined\<close>, the right side any message field.\<close>

fun strict_eq :: "string option \<Rightarrow> json option \<Rightarrow> bool" where
  "strict_eq None None = True"
| "strict_eq (Some a) (Some (JStr b)) = (a = b)"
| "strict_eq _ _ = False"

subsection \<open>Server state\<close>

type_synonym conn = nat

datatype ready_state = CONNECTING | OPEN | CLOSING | CLOSED

datatype role = Host | Viewer

record room =
  host :: conn
  viewers :: "conn list"
  createdAt :: int

record binding =
  btype :: role
  roomId :: string
  viewerId :: "string option"

record server =
  rooms :: "(string \<times> room) list"
  connections :: "(conn \<times> binding) list"
  readyState :: "conn \<Rightarrow> ready_state"
  maxRooms :: int

text \<open>The objects passed to \<open>JSON.stringify\<close> and \<open>send\<close>. A field whose value is
  \<open>undefined\<close> is left out by \<open>JSON.stringify\<close>; it is \<open>None\<close> here.\<close>

datatype reply =
    ErrorMsg string
  | RoomCreated string
  | RoomNotFound
  | RoomJoined string string
  | ViewerJoined string
  | ViewerLeft "string option"
  | HostDisconnected
  | OfferMsg "json option"
  | AnswerMsg "json option" "string option"
  | IceCandidateMsg "json option" "string option"

datatype action = Send conn reply | Close conn nat string

datatype js_error = TypeError

text \<open>\<open>Set.add\<close>: a new element goes to the end.\<close>

definition set_add :: "'a list \<Rightarrow> 'a \<Rightarrow> 'a list" where
  "set_add xs x = (if x \<in> set xs then xs else xs @ [x])"

text \<open>\<open>ws.close(code, reason)\<close>: the call is recorded; an open socket becomes
  \<open>CLOSING\<close> at once (its \<open>close\<close> event, and with it \<open>handleDisconnection\<close>,
  comes later), a socket that is not open keeps its state.\<close>

definition ws_close :: "server \<Rightarrow> conn \<Rightarrow> nat \<Rightarrow> string \<Rightarrow> server \<times> action list" where
  "ws_close s ws code reason =
     (s\<lparr>readyState := (readyState s)(ws := (if readyState s ws = OPEN then CLOSING else readyState s ws))\<rparr>,
      [Close ws code reason])"

subsection \<open>Room creation, joining and leaving\<close>

definition handleCreateRoom :: "server \<Rightarrow> conn \<Rightarrow> int \<Rightarrow> json \<Rightarrow> server \<times> action list" where
  "handleCreateRoom s ws now message =
     (let r = get_field message ''roomId'' in
      if \<not> truthy r \<or> \<not> is_string r \<or> length (the_string r) > 20 then
        (s, [Send ws (ErrorMsg ''Invalid room ID'')])
      else if int (length (rooms s)) \<ge> maxRooms s then
        (s, [Send ws (ErrorMsg ''Maximum rooms reached'')])
      else if map_of (rooms s) (the_string r) \<noteq> None then
        (s, [Send ws (ErrorMsg ''Room already exists'')])
      else
        (s\<lparr>rooms := AList.update (the_string r)
                      \<lparr>host = ws, viewers = [], createdAt = now\<rparr> (rooms s),
           connections := AList.update ws
                      \<lparr>btype = Host, roomId = the_string r, viewerId = None\<rparr> (connections s)\<rparr>,
         [Send ws (RoomCreated (the_string r))]))"

definition handleJoinRoom :: "server \<Rightarrow> conn \<Rightarrow> string \<Rightarrow> json \<Rightarrow> server \<times> action list" where
  "handleJoinRoom s ws vid message =
     (let r = get_field message ''roomId'' in
      if \<not> truthy r \<or> \<not> is_string r then (s, [Send ws RoomNotFound])
      else case map_of (rooms s) (the_string r) of
        None \<Rightarrow> (s, [Send ws RoomNotFound])
      | Some rm \<Rightarrow>
          if length (viewers rm) \<ge> 50 then (s, [Send ws (ErrorMsg ''Room is full'')])
          else
            (s\<lparr>rooms := AList.update (the_string r)
                          (rm\<lparr>viewers := set_add (viewers rm) ws\<rparr>) (rooms s),
               connections := AList.update ws
                          \<lparr>btype = Viewer, roomId = the_string r, viewerId = Some vid\<rparr>
                          (connections s)\<rparr>,
             Send ws (RoomJoined (the_string r) vid) #
               (if readyState s (host rm) = OPEN
                then [Send (host rm) (ViewerJoined vid)] else [])))"

definition handleLeaveRoom :: "server \<Rightarrow> conn \<Rightarrow> server \<times> action list" where
  "handleLeaveRoom s ws =
     (case map_of (connections s) ws of
        None \<Rightarrow> (s, [])
      | Some connection \<Rightarrow>
          (case map_of (rooms s) (roomId connection) of
             None \<Rightarrow> (s, [])
           | Some rm \<Rightarrow>
               if btype connection = Viewer then
                 (s\<lparr>rooms := AList.update (roomId connection)
                               (rm\<lparr>viewers := removeAll ws (viewers rm)\<rparr>) (rooms s),
                    connections := AList.delete ws (connections s)\<rparr>,
                  if readyState s (host rm) = OPEN
                  then [Send (host rm) (ViewerLeft (viewerId connection))] else [])
               else
                 (s\<lparr>connections := AList.delete ws (connections s)\<rparr>, [])))"

subsection \<open>Relaying offers, answers and ICE candidates\<close>

text \<open>The loop \<open>for (const viewer of room.viewers)\<close> of \<open>handleOffer\<close> and
  \<open>handleIceCandidate\<close>: the first viewer whose binding carries the requested
  identifier ends the loop, and it is sent the message when its socket is open.\<close>

definition find_viewer :: "server \<Rightarrow> room \<Rightarrow> json option \<Rightarrow> conn option" where
  "find_viewer s rm vid =
     find (\<lambda>v. case map_of (connections s) v of
                  None \<Rightarrow> False
                | Some viewerConnection \<Rightarrow> strict_eq (viewerId viewerConnection) vid)
          (viewers rm)"

definition send_to_viewer :: "server \<Rightarrow> room \<Rightarrow> json option \<Rightarrow> reply \<Rightarrow> action list" where
  "send_to_viewer s rm vid m =
     (case find_viewer s rm vid of
        None \<Rightarrow> []
      | Some v \<Rightarrow> if readyState s v = OPEN then [Send v m] else [])"

definition handleOffer :: "server \<Rightarrow> conn \<Rightarrow> json \<Rightarrow> server \<times> action list" where
  "handleOffer s ws message =
     (case map_of (connections s) ws of
        None \<Rightarrow> (s, [])
      | Some connection \<Rightarrow>
          if btype connection \<noteq> Host then (s, [])
          else (case map_of (rooms s) (roomId connection) of
                  None \<Rightarrow> (s, [])
                | Some rm \<Rightarrow>
                    (s, send_to_viewer s rm (get_field message ''viewerId'')
                          (OfferMsg (get_field message ''offer'')))))"

definition handleAnswer :: "server \<Rightarrow> conn \<Rightarrow> json \<Rightarrow> server \<times> action list" where
  "handleAnswer s ws message =
     (case map_of (connections s) ws of
        None \<Rightarrow> (s, [])
      | Some connection \<Rightarrow>
          if btype connection \<noteq> Viewer then (s, [])
          else (case map_of (rooms s) (roomId connection) of
                  None \<Rightarrow> (s, [])
                | Some rm \<Rightarrow>
                    (s, if readyState s (host rm) = OPEN
                        then [Send (host rm)
                                (AnswerMsg (get_field message ''answer'') (viewerId connection))]
                        else [])))"

definition handleIceCandidate :: "server \<Rightarrow> conn \<Rightarrow> json \<Rightarrow> server \<times> action list" where
  "handleIceCandidate s ws message =
     (case map_of (connections s) ws of
        None \<Rightarrow> (s, [])
      | Some connection \<Rightarrow>
          (case map_of (rooms s) (roomId connection) of
             None \<Rightarrow> (s, [])
           | Some rm \<Rightarrow>
               if btype connection = Host then
                 (s, send_to_viewer s rm (get_field message ''viewerId'')
                       (IceCandidateMsg (get_field message ''candidate'') None))
               else
                 (s, if readyState s (host rm) = OPEN
                     then [Send (host rm)
                             (IceCandidateMsg (get_field message ''candidate'')
                                (viewerId connection))]
                     else [])))"

subsection \<open>Dispatch\<close>

text \<open>\<open>handleMessage\<close>: \<open>message.type\<close> on \<open>null\<close> throws a \<open>TypeError\<close> outside the
  inner \<open>try\<close>; a falsy \<open>type\<close> returns; the \<open>switch\<close> compares with \<open>===\<close>. No
  handler of the model throws, so the inner \<open>catch\<close> (close code 1011) has no branch.\<close>

definition handleMessage ::
  "server \<Rightarrow> conn \<Rightarrow> int \<Rightarrow> string \<Rightarrow> json \<Rightarrow> js_error + (server \<times> action list)" where
  "handleMessage s ws now vid message =
     (if message = JNull then Inl TypeError
      else let t = get_field message ''type'' in
        if \<not> truthy t then Inr (s, [])
        else if t = Some (JStr ''create-room'') then Inr (handleCreateRoom s ws now message)
        else if t = Some (JStr ''join-room'') then Inr (handleJoinRoom s ws vid message)
        else if t = Some (JStr ''leave-room'') then Inr (handleLeaveRoom s ws)
        else if t = Some (JStr ''offer'') then Inr (handleOffer s ws message)
        else if t = Some (JStr ''answer'') then Inr (handleAnswer s ws message)
        else if t = Some (JStr ''ice-candidate'') then Inr (handleIceCandidate s ws message)
        else Inr (s, []))"

text \<open>The \<open>message\<close> listener. A frame is its \<open>data.length\<close> and the result of
  \<open>JSON.parse(data)\<close>, \<open>None\<close> when \<open>JSON.parse\<close> throws. The listener runs for
  the frames the library hands to it; see \<open>receive\<close> below for the frames it does
  not.\<close>

record frame =
  flen :: nat
  parsed :: "json option"

definition on_message ::
  "server \<Rightarrow> conn \<Rightarrow> int \<Rightarrow> string \<Rightarrow> frame \<Rightarrow> server \<times> action list" where
  "on_message s ws now vid data =
     (if flen data > 16384 then ws_close s ws 1009 ''Message too large''
      else case parsed data of
        None \<Rightarrow> ws_close s ws 1003 ''Invalid message format''
      | Some message \<Rightarrow>
          (case handleMessage s ws now vid message of
             Inl e \<Rightarrow> ws_close s ws 1003 ''Invalid message format''
           | Inr res \<Rightarrow> res))"

subsection \<open>Disconnection and the periodic sweep\<close>

definition handleDisconnection :: "server \<Rightarrow> conn \<Rightarrow> server \<times> action list" where
  "handleDisconnection s ws =
     (case map_of (connections s) ws of
        None \<Rightarrow> (s, [])
      | Some connection \<Rightarrow>
          (case map_of (rooms s) (roomId connection) of
             None \<Rightarrow> (s, [])
           | Some rm \<Rightarrow>
               if btype connection = Host then
                 (s\<lparr>rooms := AList.delete (roomId connection) (rooms s),
                    connections := AList.delete ws (connections s)\<rparr>,
                  map (\<lambda>v. Send v HostDisconnected)
                      (filter (\<lambda>v. readyState s v = OPEN) (viewers rm)))
               else
                 (s\<lparr>rooms := AList.update (roomId connection)
                               (rm\<lparr>viewers := removeAll ws (viewers rm)\<rparr>) (rooms s),
                    connections := AList.delete ws (connections s)\<rparr>,
                  if readyState s (host rm) = OPEN
                  then [Send (host rm) (ViewerLeft (viewerId connection))] else [])))"

text \<open>\<open>cleanupStaleRooms\<close>: \<open>sweep_room\<close> is the body of the \<open>for\<close> loop over
  \<open>this.rooms.entries()\<close>, run entry by entry in insertion order. An entry is only
  ever deleted when it is the current one, so the loop visits exactly the entries
  present at the start.\<close>

definition staleThreshold :: int where
  "staleThreshold = 30 * 60 * 1000"

definition sweep_room :: "int \<Rightarrow> string \<times> room \<Rightarrow> server \<Rightarrow> server \<times> action list" where
  "sweep_room now e s =
     (case e of (rid, rm) \<Rightarrow>
        if readyState s (host rm) \<noteq> OPEN then
          (s\<lparr>rooms := AList.delete rid (rooms s)\<rparr>, [])
        else if createdAt rm \<noteq> 0 \<and> now - createdAt rm > staleThreshold then
          (case (if readyState s (host rm) = OPEN
                 then ws_close s (host rm) 1000 ''Room expired'' else (s, [])) of
             (s1, out1) \<Rightarrow> (s1\<lparr>rooms := AList.delete rid (rooms s1)\<rparr>, out1))
        else (s, []))"

fun sweep :: "int \<Rightarrow> (string \<times> room) list \<Rightarrow> server \<Rightarrow> server \<times> action list" where
  "sweep now [] s = (s, [])"
| "sweep now (e # es) s =
     (case sweep_room now e s of
        (s1, out1) \<Rightarrow> (case sweep now es s1 of (s2, out2) \<Rightarrow> (s2, out1 @ out2)))"

definition cleanupStaleRooms :: "server \<Rightarrow> int \<Rightarrow> server \<times> action list" where
  "cleanupStaleRooms s now = sweep now (rooms s) s"

subsection \<open>Frames at the socket\<close>

text \<open>The \<open>error\<close> listener logs and calls \<open>handleDisconnection\<close>.\<close>

definition on_error :: "server \<Rightarrow> conn \<Rightarrow> server \<times> action list" where
  "on_error s ws = handleDisconnection s ws"

text \<open>The server is created with \<open>maxPayload: 16 * 1024\<close>. For a frame whose payload
  is larger, the \<open>ws\<close> library does not emit \<open>message\<close>: it closes the connection
  with code 1009 and emits \<open>error\<close>. Every other frame goes to the \<open>message\<close>
  listener. \<open>payload\<close> is the size of the frame's payload in bytes; \<open>data.length\<close>
  is never larger, so the size check of the listener itself is not reached.\<close>

definition maxPayload :: nat where
  "maxPayload = 16 * 1024"

definition receive ::
  "server \<Rightarrow> conn \<Rightarrow> int \<Rightarrow> string \<Rightarrow> nat \<Rightarrow> frame \<Rightarrow> server \<times> action list" where
  "receive s ws now vid payload data =
     (if payload > maxPayload then
        (case ws_close s ws 1009 [] of
           (s1, out1) \<Rightarrow> (case on_error s1 ws of (s2, out2) \<Rightarrow> (s2, out1 @ out2)))
      else on_message s ws now vid data)"

subsection \<open>Well-formed tables\<close>

text \<open>A \<open>Map\<close> has one entry per key and a \<open>Set\<close> holds an element once; the lists
  that stand for them have no duplicates.\<close>

definition well_formed :: "server \<Rightarrow> bool" where
  "well_formed s = (distinct (map fst (rooms s)) \<and> distinct (map fst (connections s))
           \<and> (\<forall>rid rm. map_of (rooms s) rid = Some rm \<longrightarrow> distinct (viewers rm)))"

subsection \<open>Consistency of the two tables\<close>

text \<open>The invariant the specification asks for: the room a binding names is in the
  room table and, for a viewer binding, has the bound connection in its viewer set.\<close>

definition binding_ok :: "server \<Rightarrow> conn \<Rightarrow> binding \<Rightarrow> bool" where
  "binding_ok s c b =
     (case map_of (rooms s) (roomId b) of
        None \<Rightarrow> False
      | Some rm \<Rightarrow> btype b = Viewer \<longrightarrow> c \<in> set (viewers rm))"

definition consistent :: "server \<Rightarrow> bool" where
  "consistent s = (\<forall>(c, b) \<in> set (connections s). binding_ok s c b)"


subsection \<open>Example inputs\<close>

text \<open>The state the constructor leaves (\<open>MAX_ROOMS\<close> unset, so 100), with every
  socket open, and the messages the clients of the repository send.\<close>

definition server0 :: server where
  "server0 = \<lparr>rooms = [], connections = [], readyState = (\<lambda>_. OPEN), maxRooms = 100\<rparr>"

definition create_room_msg :: "string \<Rightarrow> json" where
  "create_room_msg rid = JObj [(''type'', JStr ''create-room''), (''roomId'', JStr rid)]"

definition join_room_msg :: "string \<Rightarrow> json" where
  "join_room_msg rid = JObj [(''type'', JStr ''join-room''), (''roomId'', JStr rid)]"

definition leave_room_msg :: "string \<Rightarrow> json" where
  "leave_room_msg rid = JObj [(''type'', JStr ''leave-room''), (''roomId'', JStr rid)]"

text \<open>Relay messages; the payloads are arbitrary JSON values.\<close>

definition offer_msg :: "json \<Rightarrow> json option \<Rightarrow> json" where
  "offer_msg payload vid =
     JObj ([(''type'', JStr ''offer''), (''offer'', payload)]
           @ (case vid of None \<Rightarrow> [] | Some v \<Rightarrow> [(''viewerId'', v)]))"

definition answer_msg :: "json \<Rightarrow> json" where
  "answer_msg payload = JObj [(''type'', JStr ''answer''), (''answer'', payload)]"

definition sdp :: json where
  "sdp = JObj [(''type'', JStr ''offer''), (''sdp'', JStr ''v=0'')]"

text \<open>Connection 1 has created room \<open>ABCD1234\<close>; then connection 2 has joined it.\<close>

definition st_created :: server where
  "st_created = fst (handleCreateRoom server0 1 1000 (create_room_msg ''ABCD1234''))"

definition st_joined :: server where
  "st_joined = fst (handleJoinRoom st_created 2 ''viewer_k3x9'' (join_room_msg ''ABCD1234''))"

text \<open>Two rooms: after the above, connection 3 has created \<open>WXYZ5678\<close> and connection 4
  has joined it.\<close>

definition st_two :: server where
  "st_two = fst (handleJoinRoom
                  (fst (handleCreateRoom st_joined 3 3000 (create_room_msg ''WXYZ5678'')))
                  4 ''viewer_q7m2'' (join_room_msg ''WXYZ5678''))"

text \<open>The two rooms again, the socket of connection 3 (host of \<open>WXYZ5678\<close>) now closed
  without its \<open>close\<close> event having been handled.\<close>

definition st_two_dead :: server where
  "st_two_dead = st_two\<lparr>readyState := (\<lambda>_. OPEN)(3 := CLOSED)\<rparr>"

text \<open>Room \<open>ABCD1234\<close> with a second viewer, connection 5, whose socket has started to
  close; its \<open>close\<close> event has not been handled yet.\<close>

definition st_closing_viewer :: server where
  "st_closing_viewer =
     (fst (handleJoinRoom st_joined 5 ''viewer_b8d1'' (join_room_msg ''ABCD1234'')))
       \<lparr>readyState := (\<lambda>_. OPEN)(5 := CLOSING)\<rparr>"

text \<open>Connection 2, a viewer of \<open>ABCD1234\<close>, has then created a room of its own.\<close>

definition st_rebound :: server where
  "st_rebound = fst (handleCreateRoom st_joined 2 4000 (create_room_msg ''OTHER001''))"

text \<open>Connection 1, host of \<open>ABCD1234\<close>, has then created a second room.\<close>

definition st_host_rebound :: server where
  "st_host_rebound = fst (handleCreateRoom st_joined 1 4000 (create_room_msg ''SECOND01''))"


text \<open>A server started with \<open>MAX_ROOMS=1\<close> on which connection 1 has created room
  \<open>DUPLICATE\<close>.\<close>

definition st_full :: server where
  "st_full = fst (handleCreateRoom (server0\<lparr>maxRooms := 1\<rparr>) 1 1000 (create_room_msg ''DUPLICATE''))"

subsection \<open>The viewer a message names\<close>

text \<open>The test of the lookup loop, \<open>viewerConnection && viewerConnection.viewerId ===
  viewerId\<close>, and the member of a viewer set at which the loop stops: the first one, in
  the order of the set, that passes the test.\<close>

definition names_viewer :: "server \<Rightarrow> json option \<Rightarrow> conn \<Rightarrow> bool" where
  "names_viewer s vid v =
     (case map_of (connections s) v of
        None \<Rightarrow> False
      | Some viewerConnection \<Rightarrow> strict_eq (viewerId viewerConnection) vid)"

definition first_named :: "server \<Rightarrow> room \<Rightarrow> json option \<Rightarrow> conn \<Rightarrow> bool" where
  "first_named s rm vid v =
     (\<exists>pre post. viewers rm = pre @ v # post \<and> names_viewer s vid v
        \<and> (\<forall>u \<in> set pre. \<not> names_viewer s vid u))"

section \<open>Verified properties\<close>

subsection \<open>Creating a room that exists\<close>

text \<open>
  C5, as stated: once \<open>create-room\<close> has succeeded for an identifier and the room is
  still in the table, every later \<open>create-room\<close> with that identifier is answered
  \<open>Room already exists\<close>, whatever the room count. This fails: \<open>handleCreateRoom\<close>
  compares \<open>rooms.size\<close> with \<open>maxRooms\<close> before it looks the identifier up. With
  \<open>MAX_ROOMS=1\<close> and the room \<open>DUPLICATE\<close> present, a second request for
  \<open>DUPLICATE\<close> is answered \<open>Maximum rooms reached\<close>.
\<close>

theorem createRoom_duplicate_counterexample:
  "snd (handleCreateRoom (server0\<lparr>maxRooms := 1\<rparr>) 1 1000 (create_room_msg ''DUPLICATE''))
     = [Send 1 (RoomCreated ''DUPLICATE'')]
   \<and> map_of (rooms st_full) ''DUPLICATE'' \<noteq> None
   \<and> snd (handleCreateRoom st_full 2 2000 (create_room_msg ''DUPLICATE''))
     = [Send 2 (ErrorMsg ''Maximum rooms reached'')]
   \<and> snd (handleCreateRoom st_full 2 2000 (create_room_msg ''DUPLICATE''))
     \<noteq> [Send 2 (ErrorMsg ''Room already exists'')]"
  by (simp add: st_full_def server0_def handleCreateRoom_def create_room_msg_def)

text \<open>
  C5, amended: for an identifier that \<open>create-room\<close> accepts (a non-empty string of at
  most 20 characters) and whose room is in the table, every later \<open>create-room\<close> with
  that identifier fails and changes nothing; the reply is \<open>Room already exists\<close> while
  the room count is below \<open>maxRooms\<close> and \<open>Maximum rooms reached\<close> otherwise.
\<close>

theorem createRoom_existing:
  assumes "map_of (rooms s) rid \<noteq> None"
    and "get_field m ''roomId'' = Some (JStr rid)"
    and "rid \<noteq> []" and "length rid \<le> 20"
  shows "handleCreateRoom s ws now m =
           (s, [Send ws (ErrorMsg (if int (length (rooms s)) < maxRooms s
                                   then ''Room already exists'' else ''Maximum rooms reached''))])"
  using assms by (simp add: handleCreateRoom_def)

theorem createRoom_existing_witness:
  "snd (handleCreateRoom st_created 2 2000 (create_room_msg ''ABCD1234''))
     = [Send 2 (ErrorMsg ''Room already exists'')]
   \<and> rooms (fst (handleCreateRoom st_created 2 2000 (create_room_msg ''ABCD1234''))) = rooms st_created
   \<and> map_of (rooms st_created) ''ABCD1234'' \<noteq> None
   \<and> handleCreateRoom st_full 2 2000 (create_room_msg ''DUPLICATE'')
     = (st_full, [Send 2 (ErrorMsg ''Maximum rooms reached'')])
   \<and> map_of (rooms st_full) ''DUPLICATE'' \<noteq> None"
  using createRoom_existing [of st_created "''ABCD1234''" "create_room_msg ''ABCD1234''" 2 2000]
    createRoom_existing [of st_full "''DUPLICATE''" "create_room_msg ''DUPLICATE''" 2 2000]
  by (simp add: st_created_def st_full_def server0_def handleCreateRoom_def create_room_msg_def)

subsection \<open>Which identifiers create-room accepts\<close>

text \<open>
  C9, as stated: \<open>create-room\<close> answers \<open>Invalid room ID\<close> when the identifier is
  empty, too long or contains a character outside a fixed alphabet, and identifiers that
  differ only in letter case name the same room. The server checks neither: the
  identifier \<open><b> x/y\<close> is accepted, and \<open>abcd1234\<close> and \<open>ABCD1234\<close> are two rooms
  with two hosts.
\<close>

theorem createRoom_validation_counterexample:
  "snd (handleCreateRoom server0 1 1000 (create_room_msg ''<b> x/y''))
     = [Send 1 (RoomCreated ''<b> x/y'')]
   \<and> map (\<lambda>(rid, rm). (rid, host rm))
        (rooms (fst (handleCreateRoom
                  (fst (handleCreateRoom server0 1 1000 (create_room_msg ''abcd1234'')))
                  2 2000 (create_room_msg ''ABCD1234''))))
     = [(''abcd1234'', 1), (''ABCD1234'', 2)]"
  by (simp add: server0_def handleCreateRoom_def create_room_msg_def)

text \<open>
  C9, amended: \<open>create-room\<close> answers \<open>Invalid room ID\<close>, and changes nothing, exactly
  when \<open>roomId\<close> is not a non-empty string of at most 20 characters. Every other
  identifier is taken as it is: when the room is created it is stored under exactly the
  string received, with the sender as host, and no other entry of the table changes.
\<close>

theorem createRoom_validation:
  "(snd (handleCreateRoom s ws now m) = [Send ws (ErrorMsg ''Invalid room ID'')]
      \<longleftrightarrow> \<not> (\<exists>rid. get_field m ''roomId'' = Some (JStr rid) \<and> rid \<noteq> [] \<and> length rid \<le> 20))
   \<and> (snd (handleCreateRoom s ws now m) = [Send ws (ErrorMsg ''Invalid room ID'')]
      \<longrightarrow> fst (handleCreateRoom s ws now m) = s)
   \<and> (snd (handleCreateRoom s ws now m) = [Send ws (RoomCreated rid)]
      \<longrightarrow> get_field m ''roomId'' = Some (JStr rid)
          \<and> map_of (rooms s) rid = None
          \<and> map_of (rooms (fst (handleCreateRoom s ws now m))) rid
              = Some \<lparr>host = ws, viewers = [], createdAt = now\<rparr>
          \<and> (\<forall>rid'. rid' \<noteq> rid \<longrightarrow>
                map_of (rooms (fst (handleCreateRoom s ws now m))) rid' = map_of (rooms s) rid'))"
proof -
  obtain r where r: "r = get_field m ''roomId''" by simp
  show ?thesis
  proof (cases r)
    case None
    then show ?thesis using r by (simp add: handleCreateRoom_def)
  next
    case (Some j)
    then show ?thesis using r
      by (cases j) (auto simp add: handleCreateRoom_def Let_def AList.update_conv' split: if_splits)
  qed
qed

theorem createRoom_validation_witness:
  "snd (handleCreateRoom server0 1 1000 (create_room_msg ''ABCDEFGHIJKLMNOPQRSTU''))
     = [Send 1 (ErrorMsg ''Invalid room ID'')]
   \<and> snd (handleCreateRoom server0 1 1000 (create_room_msg ''ABCD1234''))
     = [Send 1 (RoomCreated ''ABCD1234'')]
   \<and> map_of (rooms st_created) ''ABCD1234'' = Some \<lparr>host = 1, viewers = [], createdAt = 1000\<rparr>
   \<and> map_of (rooms st_created) ''abcd1234'' = None"
  using createRoom_validation [of server0 1 1000 "create_room_msg ''ABCDEFGHIJKLMNOPQRSTU''" "''x''"]
    createRoom_validation [of server0 1 1000 "create_room_msg ''ABCD1234''" "''ABCD1234''"]
  by (simp add: st_created_def server0_def handleCreateRoom_def create_room_msg_def)

subsection \<open>What a single message can change\<close>


lemma handleCreateRoom_frame:
  "c \<noteq> ws \<Longrightarrow> map_of (connections (fst (handleCreateRoom s ws now m))) c = map_of (connections s) c"
  "map_of (rooms (fst (handleCreateRoom s ws now m))) r \<noteq> map_of (rooms s) r
     \<Longrightarrow> get_field m ''roomId'' = Some (JStr r)"
  by (cases "get_field m ''roomId''"; cases "the (get_field m ''roomId'')";
      auto simp add: handleCreateRoom_def Let_def AList.update_conv' split: if_splits)+

lemma handleJoinRoom_frame:
  "c \<noteq> ws \<Longrightarrow> map_of (connections (fst (handleJoinRoom s ws vid m))) c = map_of (connections s) c"
  "map_of (rooms (fst (handleJoinRoom s ws vid m))) r \<noteq> map_of (rooms s) r
     \<Longrightarrow> get_field m ''roomId'' = Some (JStr r)"
  by (cases "get_field m ''roomId''"; cases "the (get_field m ''roomId'')";
      auto simp add: handleJoinRoom_def Let_def AList.update_conv' split: if_splits option.splits)+

lemma handleLeaveRoom_frame:
  "c \<noteq> ws \<Longrightarrow> map_of (connections (fst (handleLeaveRoom s ws))) c = map_of (connections s) c"
  "map_of (rooms (fst (handleLeaveRoom s ws))) r \<noteq> map_of (rooms s) r
     \<Longrightarrow> \<exists>b. map_of (connections s) ws = Some b \<and> r = roomId b"
  by (auto simp add: handleLeaveRoom_def AList.update_conv' AList.delete_conv' split: if_splits option.splits)

lemma forwarding_keeps_state:
  "fst (handleOffer s ws m) = s"
  "fst (handleAnswer s ws m) = s"
  "fst (handleIceCandidate s ws m) = s"
  by (simp_all add: handleOffer_def handleAnswer_def handleIceCandidate_def split: option.splits)

lemma handleDisconnection_frame:
  "c \<noteq> ws \<Longrightarrow> map_of (connections (fst (handleDisconnection s ws))) c = map_of (connections s) c"
  "map_of (rooms (fst (handleDisconnection s ws))) r \<noteq> map_of (rooms s) r
     \<Longrightarrow> \<exists>b. map_of (connections s) ws = Some b \<and> r = roomId b"
  by (auto simp add: handleDisconnection_def AList.update_conv' AList.delete_conv'
      split: if_splits option.splits)

text \<open>An oversize frame: the tables afterwards are those of the disconnection.\<close>

lemma handleDisconnection_tables:
  "rooms (fst (handleDisconnection (s\<lparr>readyState := f\<rparr>) ws)) = rooms (fst (handleDisconnection s ws))"
  "connections (fst (handleDisconnection (s\<lparr>readyState := f\<rparr>) ws))
     = connections (fst (handleDisconnection s ws))"
  by (simp_all add: handleDisconnection_def split: option.splits)

lemma receive_oversize:
  "payload > 16384 \<Longrightarrow>
     receive s ws now vid payload data
       = (fst (handleDisconnection (fst (ws_close s ws 1009 [])) ws),
          Close ws 1009 [] # snd (handleDisconnection (fst (ws_close s ws 1009 [])) ws))"
  by (simp add: receive_def maxPayload_def on_error_def ws_close_def split: prod.splits)

lemma receive_oversize_tables:
  assumes "payload > 16384"
  shows "rooms (fst (receive s ws now vid payload data)) = rooms (fst (handleDisconnection s ws))"
    and "connections (fst (receive s ws now vid payload data))
           = connections (fst (handleDisconnection s ws))"
  using assms handleDisconnection_tables [where s = s and ws = ws]
  by (simp_all add: receive_oversize ws_close_def)

lemma receive_within:
  "payload \<le> 16384 \<Longrightarrow> receive s ws now vid payload data = on_message s ws now vid data"
  by (simp add: receive_def maxPayload_def)

text \<open>The tables after a frame are those of one handler, by the kind of the frame.\<close>

lemma receive_create_join:
  assumes "payload \<le> 16384" and "parsed data = Some m"
    and "get_field m ''type'' \<in> {Some (JStr ''create-room''), Some (JStr ''join-room'')}"
  shows "fst (receive s ws now vid payload data) = fst (handleCreateRoom s ws now m)
       \<or> fst (receive s ws now vid payload data) = fst (handleJoinRoom s ws vid m)
       \<or> (rooms (fst (receive s ws now vid payload data)) = rooms s
          \<and> connections (fst (receive s ws now vid payload data)) = connections s)"
proof -
  have "m \<noteq> JNull" using assms(3) by auto
  then show ?thesis using assms
    by (auto simp add: receive_within on_message_def ws_close_def handleMessage_def)
qed

lemma receive_other:
  assumes "\<not> (payload \<le> 16384 \<and> (\<exists>m. parsed data = Some m
            \<and> get_field m ''type'' \<in> {Some (JStr ''create-room''), Some (JStr ''join-room'')}))"
  shows "(rooms (fst (receive s ws now vid payload data)) = rooms (fst (handleLeaveRoom s ws))
          \<and> connections (fst (receive s ws now vid payload data))
              = connections (fst (handleLeaveRoom s ws)))
       \<or> (rooms (fst (receive s ws now vid payload data)) = rooms (fst (handleDisconnection s ws))
          \<and> connections (fst (receive s ws now vid payload data))
              = connections (fst (handleDisconnection s ws)))
       \<or> (rooms (fst (receive s ws now vid payload data)) = rooms s
          \<and> connections (fst (receive s ws now vid payload data)) = connections s)"
proof (cases "payload \<le> 16384")
  case False
  then show ?thesis using receive_oversize_tables [of payload s ws now vid data] by simp
next
  case True
  then show ?thesis using assms forwarding_keeps_state [of s ws]
    by (auto simp add: receive_within on_message_def ws_close_def handleMessage_def Let_def
        split: option.splits)
qed

text \<open>
  C10: handling one inbound frame changes at most the sender's own entry of the binding
  table and at most one entry of the room table. For a \<open>create-room\<close> or \<open>join-room\<close>
  message that entry is the room the message's \<open>roomId\<close> names, the one being created
  or joined; for every other frame it is the room the sender's binding names. Every
  other room and every other connection's binding is as before.
\<close>

theorem message_frame:
  assumes "receive s ws now vid payload data = (s', out)"
  shows "(\<forall>c. c \<noteq> ws \<longrightarrow> map_of (connections s') c = map_of (connections s) c)
       \<and> (\<forall>r. map_of (rooms s') r \<noteq> map_of (rooms s) r \<longrightarrow>
              (if payload \<le> 16384
                  \<and> (\<exists>m. parsed data = Some m
                        \<and> get_field m ''type''
                            \<in> {Some (JStr ''create-room''), Some (JStr ''join-room'')})
               then \<exists>m. parsed data = Some m \<and> get_field m ''roomId'' = Some (JStr r)
               else \<exists>b. map_of (connections s) ws = Some b \<and> r = roomId b))
       \<and> (\<forall>r r'. map_of (rooms s') r \<noteq> map_of (rooms s) r \<longrightarrow>
              map_of (rooms s') r' \<noteq> map_of (rooms s) r' \<longrightarrow> r = r')"
proof (cases "payload \<le> 16384 \<and> (\<exists>m. parsed data = Some m
            \<and> get_field m ''type'' \<in> {Some (JStr ''create-room''), Some (JStr ''join-room'')})")
  case True
  then obtain m where m: "payload \<le> 16384" "parsed data = Some m"
      "get_field m ''type'' \<in> {Some (JStr ''create-room''), Some (JStr ''join-room'')}"
    by blast
  have s': "s' = fst (receive s ws now vid payload data)" using assms by simp
  have conn: "\<forall>c. c \<noteq> ws \<longrightarrow> map_of (connections s') c = map_of (connections s) c"
    using receive_create_join [OF m, of s ws now vid] s'
      handleCreateRoom_frame(1) [of _ ws s now m] handleJoinRoom_frame(1) [of _ ws s vid m]
    by auto
  have room: "\<forall>r. map_of (rooms s') r \<noteq> map_of (rooms s) r \<longrightarrow>
                get_field m ''roomId'' = Some (JStr r)"
    using receive_create_join [OF m, of s ws now vid] s'
      handleCreateRoom_frame(2) [of s ws now m] handleJoinRoom_frame(2) [of s ws vid m]
    by auto
  have one: "\<forall>r r'. map_of (rooms s') r \<noteq> map_of (rooms s) r \<longrightarrow>
              map_of (rooms s') r' \<noteq> map_of (rooms s) r' \<longrightarrow> r = r'"
  proof (intro allI impI)
    fix r r'
    assume "map_of (rooms s') r \<noteq> map_of (rooms s) r"
      and "map_of (rooms s') r' \<noteq> map_of (rooms s) r'"
    then have "get_field m ''roomId'' = Some (JStr r)" "get_field m ''roomId'' = Some (JStr r')"
      using room by blast+
    then show "r = r'" by simp
  qed
  show ?thesis using True conn room one m(2) by auto
next
  case False
  have s': "s' = fst (receive s ws now vid payload data)" using assms by simp
  have conn: "\<forall>c. c \<noteq> ws \<longrightarrow> map_of (connections s') c = map_of (connections s) c"
    using receive_other [OF False, of s ws now vid] s'
      handleLeaveRoom_frame(1) [of _ ws s] handleDisconnection_frame(1) [of _ ws s]
    by auto
  have room: "\<forall>r. map_of (rooms s') r \<noteq> map_of (rooms s) r \<longrightarrow>
                (\<exists>b. map_of (connections s) ws = Some b \<and> r = roomId b)"
    using receive_other [OF False, of s ws now vid] s'
      handleLeaveRoom_frame(2) [of s ws] handleDisconnection_frame(2) [of s ws]
    by auto
  have one: "\<forall>r r'. map_of (rooms s') r \<noteq> map_of (rooms s) r \<longrightarrow>
              map_of (rooms s') r' \<noteq> map_of (rooms s) r' \<longrightarrow> r = r'"
  proof (intro allI impI)
    fix r r'
    assume "map_of (rooms s') r \<noteq> map_of (rooms s) r"
      and "map_of (rooms s') r' \<noteq> map_of (rooms s) r'"
    then obtain b b' where "map_of (connections s) ws = Some b" "r = roomId b"
        "map_of (connections s) ws = Some b'" "r' = roomId b'"
      using room by blast
    then show "r = r'" by simp
  qed
  show ?thesis using False conn room one by auto
qed

theorem message_frame_witness:
  "map_of (rooms (fst (receive st_two 2 5000 ''viewer_zz'' 52
       \<lparr>flen = 52, parsed = Some (leave_room_msg ''WXYZ5678'')\<rparr>))) ''WXYZ5678''
     = map_of (rooms st_two) ''WXYZ5678''
   \<and> map_of (rooms (fst (receive st_two 2 5000 ''viewer_zz'' 52
       \<lparr>flen = 52, parsed = Some (leave_room_msg ''WXYZ5678'')\<rparr>))) ''ABCD1234''
     \<noteq> map_of (rooms st_two) ''ABCD1234''
   \<and> map_of (connections st_two) 2
     = Some \<lparr>btype = Viewer, roomId = ''ABCD1234'', viewerId = Some ''viewer_k3x9''\<rparr>
   \<and> map_of (connections (fst (receive st_two 2 5000 ''viewer_zz'' 52
       \<lparr>flen = 52, parsed = Some (leave_room_msg ''WXYZ5678'')\<rparr>))) 4
     = map_of (connections st_two) 4
   \<and> map_of (connections (fst (receive st_two 2 5000 ''viewer_zz'' 52
       \<lparr>flen = 52, parsed = Some (leave_room_msg ''WXYZ5678'')\<rparr>))) 2
     \<noteq> map_of (connections st_two) 2
   \<and> map_of (rooms (fst (receive st_two 2 5000 ''viewer_zz'' 51
       \<lparr>flen = 51, parsed = Some (join_room_msg ''WXYZ5678'')\<rparr>))) ''ABCD1234''
     = map_of (rooms st_two) ''ABCD1234''
   \<and> map_of (rooms (fst (receive st_two 2 5000 ''viewer_zz'' 51
       \<lparr>flen = 51, parsed = Some (join_room_msg ''WXYZ5678'')\<rparr>))) ''WXYZ5678''
     \<noteq> map_of (rooms st_two) ''WXYZ5678''"
proof -
  have b2: "map_of (connections st_two) 2
     = Some \<lparr>btype = Viewer, roomId = ''ABCD1234'', viewerId = Some ''viewer_k3x9''\<rparr>"
    by (simp add: st_two_def st_joined_def st_created_def server0_def
        handleCreateRoom_def handleJoinRoom_def create_room_msg_def join_room_msg_def set_add_def)
  have k: "get_field (leave_room_msg ''WXYZ5678'') ''type'' = Some (JStr ''leave-room'')"
      "get_field (join_room_msg ''WXYZ5678'') ''type'' = Some (JStr ''join-room'')"
      "get_field (join_room_msg ''WXYZ5678'') ''roomId'' = Some (JStr ''WXYZ5678'')"
    by (simp_all add: leave_room_msg_def join_room_msg_def)
  note l = message_frame [OF surjective_pairing, where s = st_two and ws = 2 and now = 5000
        and vid = "''viewer_zz''" and payload = 52
        and data = "\<lparr>flen = 52, parsed = Some (leave_room_msg ''WXYZ5678'')\<rparr>"]
  note j = message_frame [OF surjective_pairing, where s = st_two and ws = 2 and now = 5000
        and vid = "''viewer_zz''" and payload = 51
        and data = "\<lparr>flen = 51, parsed = Some (join_room_msg ''WXYZ5678'')\<rparr>"]
  have u1: "map_of (rooms (fst (receive st_two 2 5000 ''viewer_zz'' 52
       \<lparr>flen = 52, parsed = Some (leave_room_msg ''WXYZ5678'')\<rparr>))) ''WXYZ5678''
     = map_of (rooms st_two) ''WXYZ5678''"
    using l [THEN conjunct2, THEN conjunct1, rule_format, of "''WXYZ5678''"] b2 k
    by (cases "map_of (rooms (fst (receive st_two 2 5000 ''viewer_zz'' 52
       \<lparr>flen = 52, parsed = Some (leave_room_msg ''WXYZ5678'')\<rparr>))) ''WXYZ5678''
     = map_of (rooms st_two) ''WXYZ5678''") simp_all
  have u2: "map_of (connections (fst (receive st_two 2 5000 ''viewer_zz'' 52
       \<lparr>flen = 52, parsed = Some (leave_room_msg ''WXYZ5678'')\<rparr>))) 4
     = map_of (connections st_two) 4"
    using l [THEN conjunct1, rule_format, of 4] by simp
  have u3: "map_of (rooms (fst (receive st_two 2 5000 ''viewer_zz'' 51
       \<lparr>flen = 51, parsed = Some (join_room_msg ''WXYZ5678'')\<rparr>))) ''ABCD1234''
     = map_of (rooms st_two) ''ABCD1234''"
    using j [THEN conjunct2, THEN conjunct1, rule_format, of "''ABCD1234''"] k
    by (cases "map_of (rooms (fst (receive st_two 2 5000 ''viewer_zz'' 51
       \<lparr>flen = 51, parsed = Some (join_room_msg ''WXYZ5678'')\<rparr>))) ''ABCD1234''
     = map_of (rooms st_two) ''ABCD1234''") simp_all
  have ch: "map_of (rooms (fst (receive st_two 2 5000 ''viewer_zz'' 52
       \<lparr>flen = 52, parsed = Some (leave_room_msg ''WXYZ5678'')\<rparr>))) ''ABCD1234''
     \<noteq> map_of (rooms st_two) ''ABCD1234''"
    "map_of (connections (fst (receive st_two 2 5000 ''viewer_zz'' 52
       \<lparr>flen = 52, parsed = Some (leave_room_msg ''WXYZ5678'')\<rparr>))) 2
     \<noteq> map_of (connections st_two) 2"
    "map_of (rooms (fst (receive st_two 2 5000 ''viewer_zz'' 51
       \<lparr>flen = 51, parsed = Some (join_room_msg ''WXYZ5678'')\<rparr>))) ''WXYZ5678''
     \<noteq> map_of (rooms st_two) ''WXYZ5678''"
    by (simp_all add: receive_def maxPayload_def on_message_def handleMessage_def
        handleLeaveRoom_def leave_room_msg_def st_two_def st_joined_def st_created_def server0_def
        handleCreateRoom_def handleJoinRoom_def create_room_msg_def join_room_msg_def set_add_def)
  show ?thesis using b2 u1 u2 u3 ch by blast
qed

subsection \<open>Oversize, malformed and unknown frames\<close>




subsection \<open>The sweep of stale rooms\<close>

lemma sweep_Cons_fst:
  "fst (sweep now (e # es) s) = fst (sweep now es (fst (sweep_room now e s)))"
  by (simp split: prod.splits)

lemma sweep_Cons_snd:
  "snd (sweep now (e # es) s)
     = snd (sweep_room now e s) @ snd (sweep now es (fst (sweep_room now e s)))"
  by (simp split: prod.splits)

lemma sweep_room_tables:
  "connections (fst (sweep_room now e s)) = connections s"
  "maxRooms (fst (sweep_room now e s)) = maxRooms s"
  by (auto simp add: sweep_room_def ws_close_def split: prod.splits)

lemma sweep_room_not_open:
  "readyState s c \<noteq> OPEN \<Longrightarrow> readyState (fst (sweep_room now e s)) c \<noteq> OPEN"
  by (auto simp add: sweep_room_def ws_close_def split: prod.splits)

lemma sweep_room_rooms:
  "map_of (rooms (fst (sweep_room now e s))) rid = None
   \<or> map_of (rooms (fst (sweep_room now e s))) rid = map_of (rooms s) rid"
  by (auto simp add: sweep_room_def ws_close_def AList.delete_conv' split: prod.splits)

lemma sweep_connections: "connections (fst (sweep now es s)) = connections s"
  by (induction es arbitrary: s) (simp_all add: sweep_Cons_fst sweep_room_tables del: sweep.simps(2))

lemma sweep_not_open:
  "readyState s c \<noteq> OPEN \<Longrightarrow> readyState (fst (sweep now es s)) c \<noteq> OPEN"
  by (induction es arbitrary: s) (simp_all add: sweep_Cons_fst sweep_room_not_open del: sweep.simps(2))

lemma sweep_rooms_None:
  "map_of (rooms s) rid = None \<Longrightarrow> map_of (rooms (fst (sweep now es s))) rid = None"
proof (induction es arbitrary: s)
  case Nil
  then show ?case by simp
next
  case (Cons e es)
  have "map_of (rooms (fst (sweep_room now e s))) rid = None"
    using sweep_room_rooms [of now e s rid] Cons.prems by auto
  then show ?case using Cons.IH [of "fst (sweep_room now e s)"]
    by (simp add: sweep_Cons_fst del: sweep.simps(2))
qed


text \<open>A room whose host is not open when its turn comes is deleted.\<close>

lemma sweep_room_deletes_dead:
  "readyState s (host rm) \<noteq> OPEN \<Longrightarrow> map_of (rooms (fst (sweep_room now (rid, rm) s))) rid = None"
  by (simp add: sweep_room_def AList.delete_conv')

lemma sweep_deletes_dead:
  "(rid, rm) \<in> set es \<Longrightarrow> readyState s (host rm) \<noteq> OPEN
     \<Longrightarrow> map_of (rooms (fst (sweep now es s))) rid = None"
proof (induction es arbitrary: s)
  case Nil
  then show ?case by simp
next
  case (Cons e es)
  show ?case
  proof (cases "e = (rid, rm)")
    case True
    then show ?thesis
      using sweep_room_deletes_dead [OF Cons.prems(2), of now rid]
      by (simp add: sweep_Cons_fst sweep_rooms_None del: sweep.simps(2))
  next
    case False
    then have "(rid, rm) \<in> set es" using Cons.prems(1) by simp
    then show ?thesis
      using Cons.IH [of "fst (sweep_room now e s)"] sweep_room_not_open [OF Cons.prems(2), of now e]
      by (simp add: sweep_Cons_fst del: sweep.simps(2))
  qed
qed

text \<open>A room that is too old and whose host is open: the host is closed with code 1000
  and the room deleted, at its own turn or, when an earlier room of the same host has
  closed the socket, at that one's.\<close>

lemma sweep_room_expired:
  assumes "readyState s (host rm) = OPEN" "createdAt rm \<noteq> 0" "now - createdAt rm > staleThreshold"
  shows "sweep_room now (rid, rm) s =
           (s\<lparr>readyState := (readyState s)(host rm := CLOSING),
              rooms := AList.delete rid (rooms s)\<rparr>, [Close (host rm) 1000 ''Room expired''])"
  using assms by (simp add: sweep_room_def ws_close_def)

lemma sweep_room_closes:
  "readyState s c = OPEN \<Longrightarrow> readyState (fst (sweep_room now e s)) c \<noteq> OPEN
     \<Longrightarrow> Close c 1000 ''Room expired'' \<in> set (snd (sweep_room now e s))"
  by (auto simp add: sweep_room_def ws_close_def split: prod.splits if_splits)

lemma sweep_expired:
  "(rid, rm) \<in> set es \<Longrightarrow> readyState s (host rm) = OPEN \<Longrightarrow> createdAt rm \<noteq> 0
     \<Longrightarrow> now - createdAt rm > staleThreshold
     \<Longrightarrow> map_of (rooms (fst (sweep now es s))) rid = None
         \<and> Close (host rm) 1000 ''Room expired'' \<in> set (snd (sweep now es s))"
proof (induction es arbitrary: s)
  case Nil
  then show ?case by simp
next
  case (Cons e es)
  show ?case
  proof (cases "e = (rid, rm)")
    case True
    have "map_of (rooms (fst (sweep_room now (rid, rm) s))) rid = None"
      using sweep_room_expired [OF Cons.prems(2,3,4), of rid] by (simp add: AList.delete_conv')
    then show ?thesis
      using True sweep_room_expired [OF Cons.prems(2,3,4), of rid]
      by (simp add: sweep_Cons_fst sweep_Cons_snd sweep_rooms_None del: sweep.simps(2))
  next
    case False
    then have mem: "(rid, rm) \<in> set es" using Cons.prems(1) by simp
    show ?thesis
    proof (cases "readyState (fst (sweep_room now e s)) (host rm) = OPEN")
      case True
      then show ?thesis
        using Cons.IH [OF mem True Cons.prems(3,4)]
        by (simp add: sweep_Cons_fst sweep_Cons_snd del: sweep.simps(2))
    next
      case False
      then show ?thesis
        using sweep_deletes_dead [OF mem False, of now] sweep_room_closes [OF Cons.prems(2) False]
        by (simp add: sweep_Cons_fst sweep_Cons_snd del: sweep.simps(2))
    qed
  qed
qed

text \<open>Nothing else is done: every action is such a close, of a host that was open.\<close>

lemma sweep_room_actions:
  "a \<in> set (snd (sweep_room now e s)) \<Longrightarrow>
     a = Close (host (snd e)) 1000 ''Room expired'' \<and> readyState s (host (snd e)) = OPEN
     \<and> createdAt (snd e) \<noteq> 0 \<and> now - createdAt (snd e) > staleThreshold"
  by (auto simp add: sweep_room_def ws_close_def split: prod.splits if_splits)

lemma sweep_room_was_open:
  "readyState (fst (sweep_room now e s)) c = OPEN \<Longrightarrow> readyState s c = OPEN"
  using sweep_room_not_open by blast

lemma sweep_was_open:
  "readyState (fst (sweep now es s)) c = OPEN \<Longrightarrow> readyState s c = OPEN"
  using sweep_not_open by blast

text \<open>A room whose host is still open after the sweep is kept as it was.\<close>

lemma sweep_room_keeps:
  "readyState (fst (sweep_room now e s)) (host rm) = OPEN \<Longrightarrow> map_of (rooms s) rid = Some rm
     \<Longrightarrow> fst e \<noteq> rid \<or> snd e = rm
     \<Longrightarrow> map_of (rooms (fst (sweep_room now e s))) rid = Some rm"
  by (cases e) (auto simp add: sweep_room_def ws_close_def AList.delete_conv' split: prod.splits if_splits)

lemma sweep_keeps:
  "readyState (fst (sweep now es s)) (host rm) = OPEN \<Longrightarrow> map_of (rooms s) rid = Some rm
     \<Longrightarrow> \<forall>e \<in> set es. fst e \<noteq> rid \<or> snd e = rm
     \<Longrightarrow> map_of (rooms (fst (sweep now es s))) rid = Some rm"
proof (induction es arbitrary: s)
  case Nil
  then show ?case by simp
next
  case (Cons e es)
  let ?s1 = "fst (sweep_room now e s)"
  have fin: "readyState (fst (sweep now es ?s1)) (host rm) = OPEN"
    using Cons.prems(1) by (simp add: sweep_Cons_fst del: sweep.simps(2))
  then have "readyState ?s1 (host rm) = OPEN" by (rule sweep_was_open)
  then have "map_of (rooms ?s1) rid = Some rm"
    using sweep_room_keeps [of now e s rm rid] Cons.prems(2,3) by simp
  then show ?case using Cons.IH [OF fin] Cons.prems(3)
    by (simp add: sweep_Cons_fst del: sweep.simps(2))
qed

text \<open>Every action is the close of a host that was open at the start.\<close>

lemma sweep_actions_open:
  "a \<in> set (snd (sweep now es s)) \<Longrightarrow>
     \<exists>e \<in> set es. a = Close (host (snd e)) 1000 ''Room expired''
        \<and> readyState s (host (snd e)) = OPEN
        \<and> createdAt (snd e) \<noteq> 0 \<and> now - createdAt (snd e) > staleThreshold"
proof (induction es arbitrary: s)
  case Nil
  then show ?case by simp
next
  case (Cons e es)
  then consider "a \<in> set (snd (sweep_room now e s))"
    | "a \<in> set (snd (sweep now es (fst (sweep_room now e s))))"
    by (auto simp add: sweep_Cons_snd simp del: sweep.simps(2))
  then show ?case
  proof cases
    case 1
    then show ?thesis using sweep_room_actions [OF 1] by simp
  next
    case 2
    then show ?thesis using Cons.IH [OF 2] sweep_room_was_open [of now e s] by auto
  qed
qed

text \<open>What one turn of the loop does to a socket and to the list of actions.\<close>

lemma sweep_room_effect:
  "(snd (sweep_room now e s) = [] \<and> readyState (fst (sweep_room now e s)) = readyState s)
   \<or> (snd (sweep_room now e s) = [Close (host (snd e)) 1000 ''Room expired'']
      \<and> readyState s (host (snd e)) = OPEN
      \<and> readyState (fst (sweep_room now e s)) = (readyState s)(host (snd e) := CLOSING))"
  by (cases e) (auto simp add: sweep_room_def ws_close_def)

lemma sweep_count:
  "count_list (snd (sweep now es s)) (Close c code reason)
     \<le> (if readyState s c = OPEN then 1 else 0)"
proof (induction es arbitrary: s)
  case Nil
  then show ?case by simp
next
  case (Cons e es)
  let ?s1 = "fst (sweep_room now e s)"
  have ih: "count_list (snd (sweep now es ?s1)) (Close c code reason)
              \<le> (if readyState ?s1 c = OPEN then 1 else 0)"
    using Cons.IH .
  from sweep_room_effect [of now e s] show ?case
  proof
    assume "snd (sweep_room now e s) = [] \<and> readyState ?s1 = readyState s"
    then show ?thesis using ih by (simp add: sweep_Cons_snd del: sweep.simps(2))
  next
    assume a: "snd (sweep_room now e s) = [Close (host (snd e)) 1000 ''Room expired'']
      \<and> readyState s (host (snd e)) = OPEN
      \<and> readyState ?s1 = (readyState s)(host (snd e) := CLOSING)"
    show ?thesis
    proof (cases "c = host (snd e)")
      case True
      then have "readyState ?s1 c \<noteq> OPEN" using a by simp
      then have "count_list (snd (sweep now es ?s1)) (Close c code reason) = 0"
        using ih by simp
      then show ?thesis using a True by (auto simp add: sweep_Cons_snd simp del: sweep.simps(2))
    next
      case False
      then show ?thesis using a ih by (simp add: sweep_Cons_snd del: sweep.simps(2))
    qed
  qed
qed

lemma sweep_readyState:
  "readyState (fst (sweep now es s)) c
     = (if Close c 1000 ''Room expired'' \<in> set (snd (sweep now es s)) then CLOSING
        else readyState s c)"
proof (induction es arbitrary: s)
  case Nil
  then show ?case by simp
next
  case (Cons e es)
  let ?s1 = "fst (sweep_room now e s)"
  have ih: "readyState (fst (sweep now es ?s1)) c
     = (if Close c 1000 ''Room expired'' \<in> set (snd (sweep now es ?s1)) then CLOSING
        else readyState ?s1 c)"
    using Cons.IH .
  from sweep_room_effect [of now e s] show ?case
  proof
    assume "snd (sweep_room now e s) = [] \<and> readyState ?s1 = readyState s"
    then show ?thesis using ih by (simp add: sweep_Cons_fst sweep_Cons_snd del: sweep.simps(2))
  next
    assume a: "snd (sweep_room now e s) = [Close (host (snd e)) 1000 ''Room expired'']
      \<and> readyState s (host (snd e)) = OPEN
      \<and> readyState ?s1 = (readyState s)(host (snd e) := CLOSING)"
    then show ?thesis using ih
      by (auto simp add: sweep_Cons_fst sweep_Cons_snd simp del: sweep.simps(2))
  qed
qed

text \<open>Which rooms are left: a room stays exactly if its host is open at the start, it is
  not too old, and no earlier room of the same host is too old.\<close>

lemma sweep_room_other_key:
  "fst e \<noteq> rid \<Longrightarrow> map_of (rooms (fst (sweep_room now e s))) rid = map_of (rooms s) rid"
  by (cases e) (auto simp add: sweep_room_def ws_close_def AList.delete_conv')

lemma sweep_other_keys:
  "rid \<notin> fst ` set es \<Longrightarrow> map_of (rooms (fst (sweep now es s))) rid = map_of (rooms s) rid"
proof (induction es arbitrary: s)
  case Nil
  then show ?case by simp
next
  case (Cons e es)
  then show ?case
    using sweep_room_other_key [of e rid now s]
    by (auto simp add: sweep_Cons_fst simp del: sweep.simps(2))
qed

lemma sweep_room_own_key:
  "map_of (rooms s) rid = Some rm \<Longrightarrow>
     map_of (rooms (fst (sweep_room now (rid, rm) s))) rid
       = (if readyState s (host rm) = OPEN
             \<and> \<not> (createdAt rm \<noteq> 0 \<and> now - createdAt rm > staleThreshold)
          then Some rm else None)"
  by (auto simp add: sweep_room_def ws_close_def AList.delete_conv')

lemma sweep_room_open_after:
  "readyState (fst (sweep_room now e s)) c = OPEN
     \<longleftrightarrow> readyState s c = OPEN
         \<and> \<not> (host (snd e) = c \<and> createdAt (snd e) \<noteq> 0
               \<and> now - createdAt (snd e) > staleThreshold)"
  by (cases e) (auto simp add: sweep_room_def ws_close_def)

lemma sweep_exact:
  "distinct (map fst (pre @ (rid, rm) # post)) \<Longrightarrow> map_of (rooms s) rid = Some rm \<Longrightarrow>
     map_of (rooms (fst (sweep now (pre @ (rid, rm) # post) s))) rid
       = (if readyState s (host rm) = OPEN
             \<and> \<not> (createdAt rm \<noteq> 0 \<and> now - createdAt rm > staleThreshold)
             \<and> (\<forall>e \<in> set pre. host (snd e) = host rm \<longrightarrow>
                   \<not> (createdAt (snd e) \<noteq> 0 \<and> now - createdAt (snd e) > staleThreshold))
          then Some rm else None)"
proof (induction pre arbitrary: s)
  case Nil
  let ?s1 = "fst (sweep_room now (rid, rm) s)"
  have "rid \<notin> fst ` set post" using Nil.prems(1) by auto
  then have "map_of (rooms (fst (sweep now post ?s1))) rid = map_of (rooms ?s1) rid"
    by (rule sweep_other_keys)
  then show ?case
    using sweep_room_own_key [OF Nil.prems(2), of now]
    by (simp add: sweep_Cons_fst del: sweep.simps(2))
next
  case (Cons e pre)
  let ?s1 = "fst (sweep_room now e s)"
  have ne: "fst e \<noteq> rid" using Cons.prems(1) by auto
  have d: "distinct (map fst (pre @ (rid, rm) # post))" using Cons.prems(1) by simp
  have r1: "map_of (rooms ?s1) rid = Some rm"
    using sweep_room_other_key [OF ne, of now s] Cons.prems(2) by simp
  show ?case
    using Cons.IH [OF d r1] sweep_room_open_after [of now e s "host rm"]
    by (auto simp add: sweep_Cons_fst simp del: sweep.simps(2))
qed

text \<open>
  C7, as stated: at a sweep, a room whose host is no longer alive is deleted, and a room
  older than 30 minutes has its host closed with a close code other than 1000, 1003,
  1009, 1011 and 1013, and is deleted. The code the sweep passes to \<open>close\<close> is 1000.
\<close>

theorem cleanupStaleRooms_counterexample:
  "snd (cleanupStaleRooms st_created 1801001) = [Close 1 1000 ''Room expired'']
   \<and> rooms (fst (cleanupStaleRooms st_created 1801001)) = []
   \<and> (1000 :: nat) \<in> {1000, 1003, 1009, 1011, 1013}"
  by (simp add: cleanupStaleRooms_def sweep_room_def ws_close_def staleThreshold_def
      st_created_def server0_def handleCreateRoom_def create_room_msg_def)

text \<open>
  C7, amended: at a sweep, every room whose host socket is not open is deleted, and
  no socket that is not open is closed; every room whose host socket is open and whose
  age (with a non-zero creation time) exceeds 30 minutes is deleted and its host is
  closed with close code 1000, reason \<open>Room expired\<close>. Every call the sweep makes is
  such a close, at most one per socket, and a closed socket becomes \<open>CLOSING\<close>. A room
  stays, and then unchanged, exactly if its host is open at the start, it is not too
  old, and no room of the same host earlier in the table is too old. The binding table
  is not touched.
\<close>

theorem cleanupStaleRooms_effect:
  assumes "distinct (map fst (rooms s))" and "cleanupStaleRooms s now = (s', out)"
  shows "(\<forall>rid rm. map_of (rooms s) rid = Some rm \<and> readyState s (host rm) \<noteq> OPEN
            \<longrightarrow> map_of (rooms s') rid = None)
       \<and> (\<forall>rid rm. map_of (rooms s) rid = Some rm \<and> readyState s (host rm) = OPEN
              \<and> createdAt rm \<noteq> 0 \<and> now - createdAt rm > 1800000
            \<longrightarrow> map_of (rooms s') rid = None
                \<and> Close (host rm) 1000 ''Room expired'' \<in> set out)
       \<and> (\<forall>a \<in> set out. \<exists>rid rm. map_of (rooms s) rid = Some rm
              \<and> a = Close (host rm) 1000 ''Room expired''
              \<and> readyState s (host rm) = OPEN
              \<and> createdAt rm \<noteq> 0 \<and> now - createdAt rm > 1800000)
       \<and> (\<forall>c code reason. count_list out (Close c code reason) \<le> 1)
       \<and> (\<forall>c. readyState s' c
              = (if Close c 1000 ''Room expired'' \<in> set out then CLOSING else readyState s c))
       \<and> (\<forall>pre rid rm post. rooms s = pre @ (rid, rm) # post \<longrightarrow>
              map_of (rooms s') rid
                = (if readyState s (host rm) = OPEN
                      \<and> \<not> (createdAt rm \<noteq> 0 \<and> now - createdAt rm > 1800000)
                      \<and> (\<forall>e \<in> set pre. host (snd e) = host rm \<longrightarrow>
                            \<not> (createdAt (snd e) \<noteq> 0 \<and> now - createdAt (snd e) > 1800000))
                   then Some rm else None))
       \<and> (\<forall>rid. map_of (rooms s) rid = None \<longrightarrow> map_of (rooms s') rid = None)
       \<and> (\<forall>rid rm. map_of (rooms s) rid = Some rm \<and> readyState s' (host rm) = OPEN
            \<longrightarrow> map_of (rooms s') rid = Some rm)
       \<and> connections s' = connections s"
proof -
  have s': "s' = fst (sweep now (rooms s) s)" and out: "out = snd (sweep now (rooms s) s)"
    using assms(2) by (simp_all add: cleanupStaleRooms_def)
  have thr: "staleThreshold = 1800000" by (simp add: staleThreshold_def)
  have c1: "\<forall>rid rm. map_of (rooms s) rid = Some rm \<and> readyState s (host rm) \<noteq> OPEN
            \<longrightarrow> map_of (rooms s') rid = None"
    using sweep_deletes_dead [of _ _ "rooms s" s now] s' by (auto dest: map_of_SomeD)
  have c2: "\<forall>rid rm. map_of (rooms s) rid = Some rm \<and> readyState s (host rm) = OPEN
              \<and> createdAt rm \<noteq> 0 \<and> now - createdAt rm > 1800000
            \<longrightarrow> map_of (rooms s') rid = None
                \<and> Close (host rm) 1000 ''Room expired'' \<in> set out"
    using sweep_expired [of _ _ "rooms s" s now] s' out thr by (auto dest: map_of_SomeD)
  have c3: "\<forall>a \<in> set out. \<exists>rid rm. map_of (rooms s) rid = Some rm
              \<and> a = Close (host rm) 1000 ''Room expired''
              \<and> readyState s (host rm) = OPEN
              \<and> createdAt rm \<noteq> 0 \<and> now - createdAt rm > 1800000"
  proof
    fix a assume "a \<in> set out"
    then obtain e where e: "e \<in> set (rooms s)" "a = Close (host (snd e)) 1000 ''Room expired''"
        "readyState s (host (snd e)) = OPEN"
        "createdAt (snd e) \<noteq> 0" "now - createdAt (snd e) > staleThreshold"
      using sweep_actions_open [of a now "rooms s" s] out by blast
    have "map_of (rooms s) (fst e) = Some (snd e)"
      using e(1) assms(1) by (simp add: map_of_eq_Some_iff)
    then show "\<exists>rid rm. map_of (rooms s) rid = Some rm
              \<and> a = Close (host rm) 1000 ''Room expired''
              \<and> readyState s (host rm) = OPEN
              \<and> createdAt rm \<noteq> 0 \<and> now - createdAt rm > 1800000"
      using e thr by auto
  qed
  have c4: "\<forall>c code reason. count_list out (Close c code reason) \<le> 1"
  proof (intro allI)
    fix c code reason
    have "count_list out (Close c code reason) \<le> (if readyState s c = OPEN then 1 else 0)"
      using sweep_count [of now "rooms s" s c code reason] out by simp
    then show "count_list out (Close c code reason) \<le> 1" by (simp split: if_splits)
  qed
  have c5: "\<forall>c. readyState s' c
              = (if Close c 1000 ''Room expired'' \<in> set out then CLOSING else readyState s c)"
    using sweep_readyState [of now "rooms s" s] s' out by simp
  have c6: "\<forall>pre rid rm post. rooms s = pre @ (rid, rm) # post \<longrightarrow>
              map_of (rooms s') rid
                = (if readyState s (host rm) = OPEN
                      \<and> \<not> (createdAt rm \<noteq> 0 \<and> now - createdAt rm > 1800000)
                      \<and> (\<forall>e \<in> set pre. host (snd e) = host rm \<longrightarrow>
                            \<not> (createdAt (snd e) \<noteq> 0 \<and> now - createdAt (snd e) > 1800000))
                   then Some rm else None)"
  proof (intro allI impI)
    fix pre rid rm post
    assume eq: "rooms s = pre @ (rid, rm) # post"
    then have d: "distinct (map fst (pre @ (rid, rm) # post))" using assms(1) by simp
    have "(rid, rm) \<in> set (rooms s)" using eq by simp
    then have m: "map_of (rooms s) rid = Some rm"
      using assms(1) by (simp add: map_of_eq_Some_iff)
    show "map_of (rooms s') rid
                = (if readyState s (host rm) = OPEN
                      \<and> \<not> (createdAt rm \<noteq> 0 \<and> now - createdAt rm > 1800000)
                      \<and> (\<forall>e \<in> set pre. host (snd e) = host rm \<longrightarrow>
                            \<not> (createdAt (snd e) \<noteq> 0 \<and> now - createdAt (snd e) > 1800000))
                   then Some rm else None)"
      using sweep_exact [OF d m, of now] s' eq thr by simp
  qed
  have c7: "\<forall>rid. map_of (rooms s) rid = None \<longrightarrow> map_of (rooms s') rid = None"
    using sweep_rooms_None [of s _ now "rooms s"] s' by simp
  have c8: "\<forall>rid rm. map_of (rooms s) rid = Some rm \<and> readyState s' (host rm) = OPEN
            \<longrightarrow> map_of (rooms s') rid = Some rm"
  proof (intro allI impI)
    fix rid rm assume a: "map_of (rooms s) rid = Some rm \<and> readyState s' (host rm) = OPEN"
    have "\<forall>e \<in> set (rooms s). fst e \<noteq> rid \<or> snd e = rm"
    proof
      fix e assume "e \<in> set (rooms s)"
      then have "map_of (rooms s) (fst e) = Some (snd e)"
        using assms(1) by (simp add: map_of_eq_Some_iff)
      then show "fst e \<noteq> rid \<or> snd e = rm" using a by auto
    qed
    then show "map_of (rooms s') rid = Some rm"
      using sweep_keeps [of now "rooms s" s rm rid] a s' by simp
  qed
  have c9: "connections s' = connections s" using s' by (simp add: sweep_connections)
  show ?thesis using c1 c2 c3 c4 c5 c6 c7 c8 c9 by blast
qed

theorem cleanupStaleRooms_effect_witness:
  "distinct (map fst (rooms st_two_dead))
   \<and> map (\<lambda>(rid, rm). (rid, host rm, createdAt rm)) (rooms st_two_dead)
       = [(''ABCD1234'', 1, 1000), (''WXYZ5678'', 3, 3000)]
   \<and> readyState st_two_dead 1 = OPEN \<and> readyState st_two_dead 3 = CLOSED
   \<and> map_of (rooms (fst (cleanupStaleRooms st_two_dead 1801500))) ''ABCD1234'' = None
   \<and> map_of (rooms (fst (cleanupStaleRooms st_two_dead 1801500))) ''WXYZ5678'' = None
   \<and> Close 1 1000 ''Room expired'' \<in> set (snd (cleanupStaleRooms st_two_dead 1801500))
   \<and> Close 3 1000 ''Room expired'' \<notin> set (snd (cleanupStaleRooms st_two_dead 1801500))
   \<and> readyState (fst (cleanupStaleRooms st_two_dead 1801500)) 1 = CLOSING
   \<and> readyState (fst (cleanupStaleRooms st_two_dead 1801500)) 3 = CLOSED
   \<and> snd (cleanupStaleRooms st_two_dead 1801500) = [Close 1 1000 ''Room expired'']
   \<and> map fst (rooms (fst (cleanupStaleRooms st_two 1801500))) = [''WXYZ5678'']
   \<and> map (\<lambda>(rid, rm). (rid, host rm, createdAt rm)) (rooms st_host_rebound)
       = [(''ABCD1234'', 1, 1000), (''SECOND01'', 1, 4000)]
   \<and> snd (cleanupStaleRooms st_host_rebound 1801500) = [Close 1 1000 ''Room expired'']
   \<and> rooms (fst (cleanupStaleRooms st_host_rebound 1801500)) = []"
proof -
  have r: "rooms st_two_dead
             = [(''ABCD1234'', \<lparr>host = 1, viewers = [2], createdAt = 1000\<rparr>),
                (''WXYZ5678'', \<lparr>host = 3, viewers = [4], createdAt = 3000\<rparr>)]"
    and o1: "readyState st_two_dead 1 = OPEN" and o3: "readyState st_two_dead 3 = CLOSED"
    by (simp_all add: st_two_dead_def st_two_def st_joined_def st_created_def server0_def
      handleCreateRoom_def handleJoinRoom_def create_room_msg_def join_room_msg_def set_add_def)
  have d: "distinct (map fst (rooms st_two_dead))" by (simp add: r)
  have rr: "map (\<lambda>(rid, rm). (rid, host rm, createdAt rm)) (rooms st_two_dead)
       = [(''ABCD1234'', 1, 1000), (''WXYZ5678'', 3, 3000)]"
    by (simp add: r)
  have m: "map_of (rooms st_two_dead) ''ABCD1234''
             = Some \<lparr>host = 1, viewers = [2], createdAt = 1000\<rparr>"
          "map_of (rooms st_two_dead) ''WXYZ5678''
             = Some \<lparr>host = 3, viewers = [4], createdAt = 3000\<rparr>"
    by (simp_all add: r)
  note t = cleanupStaleRooms_effect [OF d surjective_pairing, of 1801500]
  note t1 = t [THEN conjunct1]
  note t2 = t [THEN conjunct2, THEN conjunct1]
  note t3 = t [THEN conjunct2, THEN conjunct2, THEN conjunct1]
  note t5 = t [THEN conjunct2, THEN conjunct2, THEN conjunct2, THEN conjunct2, THEN conjunct1]
  have "map_of (rooms st_two_dead) ''WXYZ5678''
             = Some \<lparr>host = 3, viewers = [4], createdAt = 3000\<rparr>
          \<and> readyState st_two_dead (host \<lparr>host = 3, viewers = [4], createdAt = 3000\<rparr>) \<noteq> OPEN"
    using m o3 by simp
  then have dead: "map_of (rooms (fst (cleanupStaleRooms st_two_dead 1801500))) ''WXYZ5678'' = None"
    using t1 by blast
  have "map_of (rooms st_two_dead) ''ABCD1234''
             = Some \<lparr>host = 1, viewers = [2], createdAt = 1000\<rparr>
          \<and> readyState st_two_dead (host \<lparr>host = 1, viewers = [2], createdAt = 1000\<rparr>) = OPEN
          \<and> createdAt \<lparr>host = 1, viewers = [2], createdAt = 1000\<rparr> \<noteq> 0
          \<and> 1801500 - createdAt \<lparr>host = 1, viewers = [2], createdAt = 1000\<rparr> > 1800000"
    using m o1 by simp
  then have "map_of (rooms (fst (cleanupStaleRooms st_two_dead 1801500))) ''ABCD1234'' = None
      \<and> Close (host \<lparr>host = 1, viewers = [2], createdAt = 1000\<rparr>) 1000 ''Room expired''
           \<in> set (snd (cleanupStaleRooms st_two_dead 1801500))"
    using t2 by blast
  then have old: "map_of (rooms (fst (cleanupStaleRooms st_two_dead 1801500))) ''ABCD1234'' = None"
    and cl: "Close 1 1000 ''Room expired'' \<in> set (snd (cleanupStaleRooms st_two_dead 1801500))"
    by (simp_all only: room.select_convs)
  have no3: "Close 3 1000 ''Room expired'' \<notin> set (snd (cleanupStaleRooms st_two_dead 1801500))"
  proof
    assume a: "Close 3 1000 ''Room expired'' \<in> set (snd (cleanupStaleRooms st_two_dead 1801500))"
    from t3 [rule_format, OF a]
    obtain rm :: room
      where e: "Close 3 1000 ''Room expired'' = Close (host rm) 1000 ''Room expired''"
        and p: "readyState st_two_dead (host rm) = OPEN"
      by blast
    from e have "host rm = 3" by (simp only: action.inject)
    then have "readyState st_two_dead 3 = OPEN" using p by (simp only:)
    then show False using o3 by (simp only: ready_state.distinct)
  qed
  have rs1: "readyState (fst (cleanupStaleRooms st_two_dead 1801500)) 1 = CLOSING"
    and rs3: "readyState (fst (cleanupStaleRooms st_two_dead 1801500)) 3 = CLOSED"
    using t5 [rule_format, of 1] t5 [rule_format, of 3] cl no3 o1 o3
    by (simp_all only: if_True if_False)
  have ev1: "snd (cleanupStaleRooms st_two_dead 1801500) = [Close 1 1000 ''Room expired'']"
    and ev2: "map fst (rooms (fst (cleanupStaleRooms st_two 1801500))) = [''WXYZ5678'']"
    and ev3: "map (\<lambda>(rid, rm). (rid, host rm, createdAt rm)) (rooms st_host_rebound)
       = [(''ABCD1234'', 1, 1000), (''SECOND01'', 1, 4000)]"
    and ev4: "snd (cleanupStaleRooms st_host_rebound 1801500) = [Close 1 1000 ''Room expired'']"
    and ev5: "rooms (fst (cleanupStaleRooms st_host_rebound 1801500)) = []"
    by (simp_all add: cleanupStaleRooms_def sweep_room_def ws_close_def staleThreshold_def
      st_two_dead_def st_two_def st_host_rebound_def st_joined_def st_created_def server0_def
      handleCreateRoom_def handleJoinRoom_def create_room_msg_def join_room_msg_def set_add_def)
  show ?thesis
    by (intro conjI) (fact d rr o1 o3 old dead cl no3 rs1 rs3 ev1 ev2 ev3 ev4 ev5)+
qed

subsection \<open>The tables stay well-formed\<close>

lemma wf_server0: "well_formed server0"
  by (simp add: well_formed_def server0_def)

lemma distinct_set_add: "distinct xs \<Longrightarrow> distinct (set_add xs x)"
  by (simp add: set_add_def)

lemma wf_handleCreateRoom: "well_formed s \<Longrightarrow> well_formed (fst (handleCreateRoom s ws now m))"
  by (auto simp add: well_formed_def simp del: map_of_eq_Some_iff simp add: handleCreateRoom_def Let_def AList.distinct_update AList.update_conv'
      split: if_splits)

lemma wf_handleJoinRoom: "well_formed s \<Longrightarrow> well_formed (fst (handleJoinRoom s ws vid m))"
  by (auto simp add: well_formed_def simp del: map_of_eq_Some_iff simp add: handleJoinRoom_def Let_def AList.distinct_update AList.update_conv'
      distinct_set_add split: if_splits option.splits)

lemma wf_handleLeaveRoom: "well_formed s \<Longrightarrow> well_formed (fst (handleLeaveRoom s ws))"
  by (auto simp add: well_formed_def simp del: map_of_eq_Some_iff simp add: handleLeaveRoom_def AList.distinct_update AList.distinct_delete
      AList.update_conv' distinct_removeAll split: if_splits option.splits)

lemma wf_handleDisconnection: "well_formed s \<Longrightarrow> well_formed (fst (handleDisconnection s ws))"
  by (auto simp add: well_formed_def simp del: map_of_eq_Some_iff simp add: handleDisconnection_def AList.distinct_update AList.distinct_delete
      AList.update_conv' AList.delete_conv' distinct_removeAll split: if_splits option.splits)

lemma wf_ws_close: "well_formed s \<Longrightarrow> well_formed (fst (ws_close s ws code reason))"
  by (simp add: well_formed_def ws_close_def)

lemma wf_on_message: "well_formed s \<Longrightarrow> well_formed (fst (on_message s ws now vid data))"
  by (auto simp add: on_message_def handleMessage_def Let_def wf_ws_close wf_handleCreateRoom
      wf_handleJoinRoom wf_handleLeaveRoom handleOffer_def handleAnswer_def handleIceCandidate_def
      split: option.splits sum.splits if_splits)

lemma wf_sweep_room: "well_formed s \<Longrightarrow> well_formed (fst (sweep_room now e s))"
  by (auto simp add: well_formed_def simp del: map_of_eq_Some_iff simp add: sweep_room_def ws_close_def AList.distinct_delete AList.delete_conv'
      split: prod.splits if_splits)

lemma wf_cleanupStaleRooms: "well_formed s \<Longrightarrow> well_formed (fst (cleanupStaleRooms s now))"
proof -
  have "well_formed s \<Longrightarrow> well_formed (fst (sweep now es s))" for es s
    by (induction es arbitrary: s) (simp_all add: sweep_Cons_fst wf_sweep_room del: sweep.simps(2))
  then show "well_formed s \<Longrightarrow> well_formed (fst (cleanupStaleRooms s now))" by (simp add: cleanupStaleRooms_def)
qed


subsection \<open>Disconnection of a host\<close>




subsection \<open>Requests from a connection that is already bound\<close>

text \<open>
  C3, as stated: a connection has at most one binding, and a connection already bound
  as host or viewer gets no new binding, and no place in another room, from a
  \<open>create-room\<close> or \<open>join-room\<close>. Neither handler looks at the sender's binding:
  connection 1, host of \<open>ABCD1234\<close>, joins \<open>WXYZ5678\<close>, is bound as its viewer
  and listed in its viewer set, and is still the host of \<open>ABCD1234\<close>.
\<close>

theorem rebinding_counterexample:
  "map_of (connections st_two) 1 = Some \<lparr>btype = Host, roomId = ''ABCD1234'', viewerId = None\<rparr>
   \<and> snd (on_message st_two 1 6000 ''viewer_n5p0''
            \<lparr>flen = 45, parsed = Some (join_room_msg ''WXYZ5678'')\<rparr>)
     = [Send 1 (RoomJoined ''WXYZ5678'' ''viewer_n5p0''), Send 3 (ViewerJoined ''viewer_n5p0'')]
   \<and> map_of (connections (fst (on_message st_two 1 6000 ''viewer_n5p0''
            \<lparr>flen = 45, parsed = Some (join_room_msg ''WXYZ5678'')\<rparr>))) 1
     = Some \<lparr>btype = Viewer, roomId = ''WXYZ5678'', viewerId = Some ''viewer_n5p0''\<rparr>
   \<and> map (\<lambda>(rid, rm). (rid, host rm, viewers rm))
         (rooms (fst (on_message st_two 1 6000 ''viewer_n5p0''
            \<lparr>flen = 45, parsed = Some (join_room_msg ''WXYZ5678'')\<rparr>)))
     = [(''ABCD1234'', 1, [2]), (''WXYZ5678'', 3, [4, 1])]"
  by (simp add: on_message_def handleMessage_def st_two_def
      st_joined_def st_created_def server0_def handleCreateRoom_def handleJoinRoom_def
      create_room_msg_def join_room_msg_def set_add_def)

lemma handleCreateRoom_success:
  assumes "snd (handleCreateRoom s ws now m) = [Send ws (RoomCreated rid)]"
  shows "fst (handleCreateRoom s ws now m)
           = s\<lparr>rooms := AList.update rid \<lparr>host = ws, viewers = [], createdAt = now\<rparr> (rooms s),
                connections := AList.update ws \<lparr>btype = Host, roomId = rid, viewerId = None\<rparr>
                                 (connections s)\<rparr>"
  using assms by (auto simp add: handleCreateRoom_def Let_def split: if_splits)

lemma handleJoinRoom_success:
  assumes "hd (snd (handleJoinRoom s ws vid m)) = Send ws (RoomJoined rid vid')"
  shows "\<exists>rm. map_of (rooms s) rid = Some rm \<and> vid' = vid
           \<and> fst (handleJoinRoom s ws vid m)
             = s\<lparr>rooms := AList.update rid (rm\<lparr>viewers := set_add (viewers rm) ws\<rparr>) (rooms s),
                  connections := AList.update ws
                       \<lparr>btype = Viewer, roomId = rid, viewerId = Some vid\<rparr> (connections s)\<rparr>"
  using assms by (auto simp add: handleJoinRoom_def Let_def split: if_splits option.splits)

text \<open>
  C3, amended: a connection has at most one binding at a time (one entry per key of the
  binding table). \<open>create-room\<close> and \<open>join-room\<close> answer without regard to the
  binding table; when they succeed, also for a sender that is already bound, the
  sender's binding is replaced by the new one, host of the created room or viewer of
  the joined room, and every other room, the sender's previous one included, is left as
  it was.
\<close>

theorem rebinding:
  "(distinct (map fst (connections s)) \<longrightarrow>
      distinct (map fst (connections (fst (handleCreateRoom s ws now m))))
      \<and> distinct (map fst (connections (fst (handleJoinRoom s ws vid m)))))
   \<and> snd (handleCreateRoom (s\<lparr>connections := cs\<rparr>) ws now m) = snd (handleCreateRoom s ws now m)
   \<and> snd (handleJoinRoom (s\<lparr>connections := cs\<rparr>) ws vid m) = snd (handleJoinRoom s ws vid m)
   \<and> (snd (handleCreateRoom s ws now m) = [Send ws (RoomCreated rid)] \<longrightarrow>
        map_of (connections (fst (handleCreateRoom s ws now m))) ws
          = Some \<lparr>btype = Host, roomId = rid, viewerId = None\<rparr>
        \<and> (\<forall>r. r \<noteq> rid \<longrightarrow>
              map_of (rooms (fst (handleCreateRoom s ws now m))) r = map_of (rooms s) r))
   \<and> (hd (snd (handleJoinRoom s ws vid m)) = Send ws (RoomJoined rid vid) \<longrightarrow>
        map_of (connections (fst (handleJoinRoom s ws vid m))) ws
          = Some \<lparr>btype = Viewer, roomId = rid, viewerId = Some vid\<rparr>
        \<and> (\<forall>r. r \<noteq> rid \<longrightarrow>
              map_of (rooms (fst (handleJoinRoom s ws vid m))) r = map_of (rooms s) r))"
proof -
  have d: "distinct (map fst (connections s)) \<longrightarrow>
      distinct (map fst (connections (fst (handleCreateRoom s ws now m))))
      \<and> distinct (map fst (connections (fst (handleJoinRoom s ws vid m))))"
    by (auto simp add: handleCreateRoom_def handleJoinRoom_def Let_def AList.distinct_update
        split: option.splits)
  have i1: "snd (handleCreateRoom (s\<lparr>connections := cs\<rparr>) ws now m) = snd (handleCreateRoom s ws now m)"
    by (simp add: handleCreateRoom_def Let_def)
  have i2: "snd (handleJoinRoom (s\<lparr>connections := cs\<rparr>) ws vid m) = snd (handleJoinRoom s ws vid m)"
    by (simp add: handleJoinRoom_def Let_def split: option.splits)
  have c: "snd (handleCreateRoom s ws now m) = [Send ws (RoomCreated rid)] \<longrightarrow>
        map_of (connections (fst (handleCreateRoom s ws now m))) ws
          = Some \<lparr>btype = Host, roomId = rid, viewerId = None\<rparr>
        \<and> (\<forall>r. r \<noteq> rid \<longrightarrow>
              map_of (rooms (fst (handleCreateRoom s ws now m))) r = map_of (rooms s) r)"
    using handleCreateRoom_success [of s ws now m rid] by (auto simp add: AList.update_conv')
  have j: "hd (snd (handleJoinRoom s ws vid m)) = Send ws (RoomJoined rid vid) \<longrightarrow>
        map_of (connections (fst (handleJoinRoom s ws vid m))) ws
          = Some \<lparr>btype = Viewer, roomId = rid, viewerId = Some vid\<rparr>
        \<and> (\<forall>r. r \<noteq> rid \<longrightarrow>
              map_of (rooms (fst (handleJoinRoom s ws vid m))) r = map_of (rooms s) r)"
    using handleJoinRoom_success [of s ws vid m rid vid] by (auto simp add: AList.update_conv')
  show ?thesis using d i1 i2 c j by blast
qed

theorem rebinding_witness:
  "hd (snd (handleJoinRoom st_two 1 ''viewer_n5p0'' (join_room_msg ''WXYZ5678'')))
     = Send 1 (RoomJoined ''WXYZ5678'' ''viewer_n5p0'')
   \<and> map_of (connections st_two) 1 = Some \<lparr>btype = Host, roomId = ''ABCD1234'', viewerId = None\<rparr>
   \<and> map_of (connections (fst (handleJoinRoom st_two 1 ''viewer_n5p0'' (join_room_msg ''WXYZ5678'')))) 1
     = Some \<lparr>btype = Viewer, roomId = ''WXYZ5678'', viewerId = Some ''viewer_n5p0''\<rparr>
   \<and> map_of (rooms (fst (handleJoinRoom st_two 1 ''viewer_n5p0'' (join_room_msg ''WXYZ5678'')))) ''ABCD1234''
     = Some \<lparr>host = 1, viewers = [2], createdAt = 1000\<rparr>
   \<and> snd (handleCreateRoom st_two 2 8000 (create_room_msg ''NEWROOM1''))
     = [Send 2 (RoomCreated ''NEWROOM1'')]
   \<and> map_of (connections (fst (handleCreateRoom st_two 2 8000 (create_room_msg ''NEWROOM1'')))) 2
     = Some \<lparr>btype = Host, roomId = ''NEWROOM1'', viewerId = None\<rparr>
   \<and> map_of (rooms (fst (handleCreateRoom st_two 2 8000 (create_room_msg ''NEWROOM1'')))) ''ABCD1234''
     = Some \<lparr>host = 1, viewers = [2], createdAt = 1000\<rparr>
   \<and> distinct (map fst (connections st_two))"
  using rebinding [of st_two 1 8000 "join_room_msg ''WXYZ5678''" "''viewer_n5p0''" "[]" "''WXYZ5678''"]
    rebinding [of st_two 2 8000 "create_room_msg ''NEWROOM1''" "''viewer_n5p0''" "[]" "''NEWROOM1''"]
  by (simp add: st_two_def
      st_joined_def st_created_def server0_def handleCreateRoom_def handleJoinRoom_def
      create_room_msg_def join_room_msg_def set_add_def)

subsection \<open>A host that leaves\<close>

text \<open>
  C2: for a connection bound as host of a room, \<open>leave-room\<close> should clean up as a
  disconnection does and remove the room. \<open>handleLeaveRoom\<close> has a branch for viewers
  only: for a host it deletes the binding, keeps the room and notifies nobody, and the
  later \<open>close\<close> event of that connection finds no binding and does nothing, whereas
  \<open>handleDisconnection\<close> in the same state removes the room.
\<close>

theorem host_leave_keeps_room:
  assumes "map_of (connections s) ws = Some b" and "btype b = Host"
    and "map_of (rooms s) (roomId b) = Some rm"
  shows "handleLeaveRoom s ws = (s\<lparr>connections := AList.delete ws (connections s)\<rparr>, [])
       \<and> map_of (rooms (fst (handleLeaveRoom s ws))) (roomId b) = Some rm
       \<and> map_of (connections (fst (handleLeaveRoom s ws))) ws = None
       \<and> handleDisconnection (fst (handleLeaveRoom s ws)) ws = (fst (handleLeaveRoom s ws), [])
       \<and> map_of (rooms (fst (handleDisconnection s ws))) (roomId b) = None"
  using assms
  by (simp add: handleLeaveRoom_def handleDisconnection_def AList.delete_conv')

theorem host_leave_keeps_room_witness:
  "map_of (connections st_joined) 1 = Some \<lparr>btype = Host, roomId = ''ABCD1234'', viewerId = None\<rparr>
   \<and> on_message st_joined 1 7000 ''viewer_zz'' \<lparr>flen = 45, parsed = Some (leave_room_msg ''ABCD1234'')\<rparr>
     = handleLeaveRoom st_joined 1
   \<and> snd (handleLeaveRoom st_joined 1) = []
   \<and> rooms (fst (handleLeaveRoom st_joined 1))
     = [(''ABCD1234'', \<lparr>host = 1, viewers = [2], createdAt = 1000\<rparr>)]
   \<and> map_of (connections (fst (handleLeaveRoom st_joined 1))) 1 = None
   \<and> rooms (fst (handleDisconnection (fst (handleLeaveRoom st_joined 1)) 1))
     = [(''ABCD1234'', \<lparr>host = 1, viewers = [2], createdAt = 1000\<rparr>)]
   \<and> rooms (fst (handleDisconnection st_joined 1)) = []
   \<and> snd (handleDisconnection st_joined 1) = [Send 2 HostDisconnected]"
proof -
  have c: "map_of (connections st_joined) 1 = Some \<lparr>btype = Host, roomId = ''ABCD1234'', viewerId = None\<rparr>"
    and r: "map_of (rooms st_joined) (roomId \<lparr>btype = Host, roomId = ''ABCD1234'', viewerId = None\<rparr>)
              = Some \<lparr>host = 1, viewers = [2], createdAt = 1000\<rparr>"
    by (simp_all add: st_joined_def st_created_def server0_def handleCreateRoom_def
        handleJoinRoom_def create_room_msg_def join_room_msg_def set_add_def)
  have b: "btype \<lparr>btype = Host, roomId = ''ABCD1234'', viewerId = None\<rparr> = Host" by simp
  have g: ?thesis
    by (simp add: on_message_def handleMessage_def leave_room_msg_def handleLeaveRoom_def
        handleDisconnection_def st_joined_def st_created_def server0_def handleCreateRoom_def
        handleJoinRoom_def create_room_msg_def join_room_msg_def set_add_def)
  show ?thesis
    using host_leave_keeps_room [OF c b r] by - (rule g)
qed

subsection \<open>Relaying offers, answers and candidates\<close>

text \<open>
  C6, as stated: an offer is forwarded only from a host and an answer only from a
  viewer, the payload is forwarded unchanged, and the message reaches one recipient,
  the viewer named by \<open>viewerId\<close> in the sender's room or that room's host, never a
  connection of another room. The viewer lookup compares only the \<open>viewerId\<close> of
  each member's current binding with the message's. Connection 2 joined \<open>ABCD1234\<close>
  and then created \<open>OTHER001\<close>: it is bound as host of \<open>OTHER001\<close>, with no viewer
  identifier, and is still in the viewer set of \<open>ABCD1234\<close>. An offer without
  \<open>viewerId\<close> from the host of \<open>ABCD1234\<close> is delivered to it.
\<close>

theorem relay_counterexample:
  "map_of (connections st_rebound) 1
     = Some \<lparr>btype = Host, roomId = ''ABCD1234'', viewerId = None\<rparr>
   \<and> map_of (connections st_rebound) 2
     = Some \<lparr>btype = Host, roomId = ''OTHER001'', viewerId = None\<rparr>
   \<and> map (\<lambda>(rid, rm). (rid, host rm, viewers rm)) (rooms st_rebound)
     = [(''ABCD1234'', 1, [2]), (''OTHER001'', 2, [])]
   \<and> snd (on_message st_rebound 1 9000 ''viewer_zz''
            \<lparr>flen = 60, parsed = Some (offer_msg sdp None)\<rparr>)
     = [Send 2 (OfferMsg (Some sdp))]"
  by (simp add: on_message_def handleMessage_def handleOffer_def send_to_viewer_def
      find_viewer_def offer_msg_def sdp_def st_rebound_def
      st_joined_def st_created_def server0_def handleCreateRoom_def handleJoinRoom_def
      create_room_msg_def join_room_msg_def set_add_def)

lemma find_first:
  "xs = pre @ v # post \<Longrightarrow> P v \<Longrightarrow> \<forall>u \<in> set pre. \<not> P u \<Longrightarrow> find P xs = Some v"
  by (induction pre arbitrary: xs) auto

lemma find_viewer_first:
  "first_named s rm vid v \<Longrightarrow> find_viewer s rm vid = Some v"
  unfolding first_named_def find_viewer_def names_viewer_def
  by (auto intro: find_first)

lemma find_viewer_none:
  "\<forall>u \<in> set (viewers rm). \<not> names_viewer s vid u \<Longrightarrow> find_viewer s rm vid = None"
  by (auto simp add: find_viewer_def names_viewer_def find_None_iff)

lemma send_to_viewer_first:
  "first_named s rm vid v \<Longrightarrow>
     send_to_viewer s rm vid msg = (if readyState s v = OPEN then [Send v msg] else [])"
  by (simp add: send_to_viewer_def find_viewer_first)

lemma send_to_viewer_none:
  "\<forall>u \<in> set (viewers rm). \<not> names_viewer s vid u \<Longrightarrow> send_to_viewer s rm vid msg = []"
  by (simp add: send_to_viewer_def find_viewer_none)

text \<open>
  C6, amended: an offer is forwarded only when the sender is bound as host of a room
  in the table, an answer only when it is bound as viewer of one, a candidate from
  either; the state is unchanged and the forwarded payload is the received one. For a
  host, the target is the first member of the viewer set of the room its binding names
  whose current binding has a \<open>viewerId\<close> strictly equal to the message's, whatever
  role and room that binding names; for a viewer, it is the host of the room its binding
  names. If there is a target and its socket is open, exactly one message is sent, to
  it; if there is no target or its socket is not open, nothing is sent. So every
  recipient is the host or in the viewer set of the sender's room.
\<close>

theorem relay:
  "(snd (handleOffer s ws m) \<noteq> [] \<longrightarrow>
      (\<exists>b rm. map_of (connections s) ws = Some b \<and> btype b = Host
          \<and> map_of (rooms s) (roomId b) = Some rm))
   \<and> (\<forall>b rm v. map_of (connections s) ws = Some b \<and> btype b = Host
          \<and> map_of (rooms s) (roomId b) = Some rm
          \<and> first_named s rm (get_field m ''viewerId'') v \<longrightarrow>
        snd (handleOffer s ws m)
          = (if readyState s v = OPEN then [Send v (OfferMsg (get_field m ''offer''))] else []))
   \<and> (\<forall>b rm. map_of (connections s) ws = Some b \<and> btype b = Host
          \<and> map_of (rooms s) (roomId b) = Some rm
          \<and> (\<forall>u \<in> set (viewers rm). \<not> names_viewer s (get_field m ''viewerId'') u) \<longrightarrow>
        snd (handleOffer s ws m) = [])
   \<and> (snd (handleAnswer s ws m) \<noteq> [] \<longrightarrow>
      (\<exists>b rm. map_of (connections s) ws = Some b \<and> btype b = Viewer
          \<and> map_of (rooms s) (roomId b) = Some rm))
   \<and> (\<forall>b rm. map_of (connections s) ws = Some b \<and> btype b = Viewer
          \<and> map_of (rooms s) (roomId b) = Some rm \<longrightarrow>
        snd (handleAnswer s ws m)
          = (if readyState s (host rm) = OPEN
             then [Send (host rm) (AnswerMsg (get_field m ''answer'') (viewerId b))] else []))
   \<and> (snd (handleIceCandidate s ws m) \<noteq> [] \<longrightarrow>
      (\<exists>b rm. map_of (connections s) ws = Some b \<and> map_of (rooms s) (roomId b) = Some rm))
   \<and> (\<forall>b rm v. map_of (connections s) ws = Some b \<and> btype b = Host
          \<and> map_of (rooms s) (roomId b) = Some rm
          \<and> first_named s rm (get_field m ''viewerId'') v \<longrightarrow>
        snd (handleIceCandidate s ws m)
          = (if readyState s v = OPEN
             then [Send v (IceCandidateMsg (get_field m ''candidate'') None)] else []))
   \<and> (\<forall>b rm. map_of (connections s) ws = Some b \<and> btype b = Host
          \<and> map_of (rooms s) (roomId b) = Some rm
          \<and> (\<forall>u \<in> set (viewers rm). \<not> names_viewer s (get_field m ''viewerId'') u) \<longrightarrow>
        snd (handleIceCandidate s ws m) = [])
   \<and> (\<forall>b rm. map_of (connections s) ws = Some b \<and> btype b = Viewer
          \<and> map_of (rooms s) (roomId b) = Some rm \<longrightarrow>
        snd (handleIceCandidate s ws m)
          = (if readyState s (host rm) = OPEN
             then [Send (host rm) (IceCandidateMsg (get_field m ''candidate'') (viewerId b))]
             else []))
   \<and> fst (handleOffer s ws m) = s \<and> fst (handleAnswer s ws m) = s
   \<and> fst (handleIceCandidate s ws m) = s"
proof -
  have o1: "snd (handleOffer s ws m) \<noteq> [] \<longrightarrow>
      (\<exists>b rm. map_of (connections s) ws = Some b \<and> btype b = Host
          \<and> map_of (rooms s) (roomId b) = Some rm)"
    by (auto simp add: handleOffer_def split: option.splits if_splits)
  have o2: "\<forall>b rm v. map_of (connections s) ws = Some b \<and> btype b = Host
          \<and> map_of (rooms s) (roomId b) = Some rm
          \<and> first_named s rm (get_field m ''viewerId'') v \<longrightarrow>
        snd (handleOffer s ws m)
          = (if readyState s v = OPEN then [Send v (OfferMsg (get_field m ''offer''))] else [])"
    by (auto simp add: handleOffer_def send_to_viewer_first)
  have o3: "\<forall>b rm. map_of (connections s) ws = Some b \<and> btype b = Host
          \<and> map_of (rooms s) (roomId b) = Some rm
          \<and> (\<forall>u \<in> set (viewers rm). \<not> names_viewer s (get_field m ''viewerId'') u) \<longrightarrow>
        snd (handleOffer s ws m) = []"
    by (auto simp add: handleOffer_def send_to_viewer_none)
  have a1: "snd (handleAnswer s ws m) \<noteq> [] \<longrightarrow>
      (\<exists>b rm. map_of (connections s) ws = Some b \<and> btype b = Viewer
          \<and> map_of (rooms s) (roomId b) = Some rm)"
    by (auto simp add: handleAnswer_def split: option.splits if_splits)
  have a2: "\<forall>b rm. map_of (connections s) ws = Some b \<and> btype b = Viewer
          \<and> map_of (rooms s) (roomId b) = Some rm \<longrightarrow>
        snd (handleAnswer s ws m)
          = (if readyState s (host rm) = OPEN
             then [Send (host rm) (AnswerMsg (get_field m ''answer'') (viewerId b))] else [])"
    by (auto simp add: handleAnswer_def)
  have i1: "snd (handleIceCandidate s ws m) \<noteq> [] \<longrightarrow>
      (\<exists>b rm. map_of (connections s) ws = Some b \<and> map_of (rooms s) (roomId b) = Some rm)"
    by (auto simp add: handleIceCandidate_def split: option.splits if_splits)
  have i2: "\<forall>b rm v. map_of (connections s) ws = Some b \<and> btype b = Host
          \<and> map_of (rooms s) (roomId b) = Some rm
          \<and> first_named s rm (get_field m ''viewerId'') v \<longrightarrow>
        snd (handleIceCandidate s ws m)
          = (if readyState s v = OPEN
             then [Send v (IceCandidateMsg (get_field m ''candidate'') None)] else [])"
    by (auto simp add: handleIceCandidate_def send_to_viewer_first)
  have i3: "\<forall>b rm. map_of (connections s) ws = Some b \<and> btype b = Host
          \<and> map_of (rooms s) (roomId b) = Some rm
          \<and> (\<forall>u \<in> set (viewers rm). \<not> names_viewer s (get_field m ''viewerId'') u) \<longrightarrow>
        snd (handleIceCandidate s ws m) = []"
    by (auto simp add: handleIceCandidate_def send_to_viewer_none)
  have i4: "\<forall>b rm. map_of (connections s) ws = Some b \<and> btype b = Viewer
          \<and> map_of (rooms s) (roomId b) = Some rm \<longrightarrow>
        snd (handleIceCandidate s ws m)
          = (if readyState s (host rm) = OPEN
             then [Send (host rm) (IceCandidateMsg (get_field m ''candidate'') (viewerId b))]
             else [])"
    by (auto simp add: handleIceCandidate_def)
  show ?thesis
    using o1 o2 o3 a1 a2 i1 i2 i3 i4 forwarding_keeps_state [of s ws m] by blast
qed

theorem relay_witness:
  "snd (handleOffer st_two 1 (offer_msg sdp (Some (JStr ''viewer_k3x9''))))
     = [Send 2 (OfferMsg (Some sdp))]
   \<and> first_named st_two \<lparr>host = 1, viewers = [2], createdAt = 1000\<rparr>
        (Some (JStr ''viewer_k3x9'')) 2
   \<and> snd (handleOffer st_closing_viewer 1 (offer_msg sdp (Some (JStr ''viewer_b8d1'')))) = []
   \<and> first_named st_closing_viewer \<lparr>host = 1, viewers = [2, 5], createdAt = 1000\<rparr>
        (Some (JStr ''viewer_b8d1'')) 5
   \<and> snd (handleOffer st_two 1 (offer_msg sdp (Some (JStr ''viewer_q7m2'')))) = []
   \<and> snd (handleOffer st_two 2 (offer_msg sdp (Some (JStr ''viewer_k3x9'')))) = []
   \<and> snd (handleAnswer st_two 2 (answer_msg sdp))
     = [Send 1 (AnswerMsg (Some sdp) (Some ''viewer_k3x9''))]
   \<and> snd (handleAnswer st_two 1 (answer_msg sdp)) = []
   \<and> snd (handleIceCandidate st_two 4
            (JObj [(''type'', JStr ''ice-candidate''), (''candidate'', JNull)]))
     = [Send 3 (IceCandidateMsg (Some JNull) (Some ''viewer_q7m2''))]"
proof -
  have c1: "map_of (connections st_two) 1
              = Some \<lparr>btype = Host, roomId = ''ABCD1234'', viewerId = None\<rparr>"
    and r1: "map_of (rooms st_two) ''ABCD1234''
              = Some \<lparr>host = 1, viewers = [2], createdAt = 1000\<rparr>"
    and c2: "map_of (connections st_two) 2
              = Some \<lparr>btype = Viewer, roomId = ''ABCD1234'', viewerId = Some ''viewer_k3x9''\<rparr>"
    and o: "readyState st_two = (\<lambda>_. OPEN)"
    by (simp_all add: st_two_def st_joined_def st_created_def server0_def handleCreateRoom_def
        handleJoinRoom_def create_room_msg_def join_room_msg_def set_add_def)
  have c5: "map_of (connections st_closing_viewer) 1
              = Some \<lparr>btype = Host, roomId = ''ABCD1234'', viewerId = None\<rparr>"
    and r5: "map_of (rooms st_closing_viewer) ''ABCD1234''
              = Some \<lparr>host = 1, viewers = [2, 5], createdAt = 1000\<rparr>"
    and n5: "names_viewer st_closing_viewer (Some (JStr ''viewer_b8d1'')) 5"
       "\<not> names_viewer st_closing_viewer (Some (JStr ''viewer_b8d1'')) 2"
    and o5: "readyState st_closing_viewer 5 = CLOSING"
    by (simp_all add: names_viewer_def st_closing_viewer_def st_joined_def st_created_def
        server0_def handleCreateRoom_def handleJoinRoom_def create_room_msg_def
        join_room_msg_def set_add_def)
  have f2: "first_named st_two \<lparr>host = 1, viewers = [2], createdAt = 1000\<rparr>
        (Some (JStr ''viewer_k3x9'')) 2"
    unfolding first_named_def
    by (rule exI [of _ "[]"], rule exI [of _ "[]"]) (simp add: names_viewer_def c2)
  have f5: "first_named st_closing_viewer \<lparr>host = 1, viewers = [2, 5], createdAt = 1000\<rparr>
        (Some (JStr ''viewer_b8d1'')) 5"
    unfolding first_named_def
    by (rule exI [of _ "[2]"], rule exI [of _ "[]"]) (simp add: n5)
  have none: "\<forall>u \<in> set (viewers \<lparr>host = 1, viewers = [2], createdAt = 1000\<rparr>).
                \<not> names_viewer st_two (Some (JStr ''viewer_q7m2'')) u"
    by (simp add: names_viewer_def c2)
  have m: "get_field (offer_msg sdp (Some (JStr v))) ''viewerId'' = Some (JStr v)"
      "get_field (offer_msg sdp (Some (JStr v))) ''offer'' = Some sdp"
      "get_field (answer_msg sdp) ''answer'' = Some sdp" for v
    by (simp_all add: offer_msg_def answer_msg_def)
  have ice: "snd (handleIceCandidate st_two 4
            (JObj [(''type'', JStr ''ice-candidate''), (''candidate'', JNull)]))
     = [Send 3 (IceCandidateMsg (Some JNull) (Some ''viewer_q7m2''))]"
    by (simp add: handleIceCandidate_def st_two_def st_joined_def st_created_def server0_def
        handleCreateRoom_def handleJoinRoom_def create_room_msg_def join_room_msg_def set_add_def)
  show ?thesis
    using relay [of st_two 1 "offer_msg sdp (Some (JStr ''viewer_k3x9''))"]
      relay [of st_closing_viewer 1 "offer_msg sdp (Some (JStr ''viewer_b8d1''))"]
      relay [of st_two 1 "offer_msg sdp (Some (JStr ''viewer_q7m2''))"]
      relay [of st_two 2 "offer_msg sdp (Some (JStr ''viewer_k3x9''))"]
      relay [of st_two 2 "answer_msg sdp"]
      relay [of st_two 1 "answer_msg sdp"]
      c1 r1 c2 o c5 r5 o5 f2 f5 none m ice
    by (simp add: m)
qed

subsection \<open>Consistency of rooms and bindings\<close>

lemma consistent_server0: "consistent server0"
  by (simp add: consistent_def server0_def)





















end
